theory Spec2Isabelle
  imports Main "HOL-Library.Sublist" "HOL-Library.Code_Target_Nat"
begin

section \<open>Python values, dictionaries and errors\<close>

text \<open>
  The script \<^verbatim>\<open>rebuild_avb.py\<close> works on strings, on \<^verbatim>\<open>None\<close> and on dictionaries whose
  values are strings or \<^verbatim>\<open>None\<close>. A dictionary is a partial map: \<open>d k = None\<close> says that
  the key is not in the dictionary, \<open>d k = Some PyNone\<close> that the key is there and holds
  Python's \<^verbatim>\<open>None\<close>. The two behave differently under \<^verbatim>\<open>d.get(k, default)\<close>, so both
  are kept. Text is ASCII text (the report of the signing tool).
\<close>

datatype pyval = PyNone | PyStr string

type_synonym pydict = "string \<rightharpoonup> pyval"

text \<open>Uncaught exceptions and \<^verbatim>\<open>sys.exit(n)\<close> end the process; they are values here.\<close>

datatype error = SystemExit nat | TypeError | AttributeError | KeyError | ValueError

text \<open>Truth value of a string or \<^verbatim>\<open>None\<close>: \<^verbatim>\<open>None\<close> and the empty string are false.\<close>

fun truthy :: "pyval \<Rightarrow> bool" where
  "truthy PyNone = False"
| "truthy (PyStr s) = (s \<noteq> [])"

text \<open>\<^verbatim>\<open>d.get(k)\<close>, \<^verbatim>\<open>d.get(k, default)\<close> and \<^verbatim>\<open>d[k]\<close>.\<close>

definition dict_get :: "pydict \<Rightarrow> string \<Rightarrow> pyval" where
  "dict_get d k = (case d k of None \<Rightarrow> PyNone | Some v \<Rightarrow> v)"

definition dict_get_default :: "pydict \<Rightarrow> string \<Rightarrow> pyval \<Rightarrow> pyval" where
  "dict_get_default d k dflt = (case d k of None \<Rightarrow> dflt | Some v \<Rightarrow> v)"

definition dict_index :: "pydict \<Rightarrow> string \<Rightarrow> error + pyval" where
  "dict_index d k = (case d k of None \<Rightarrow> Inl KeyError | Some v \<Rightarrow> Inr v)"

text \<open>How an f-string renders a value: \<^verbatim>\<open>f"{None}"\<close> is the text \<^verbatim>\<open>None\<close>.\<close>

fun format_val :: "pyval \<Rightarrow> string" where
  "format_val PyNone = ''None''"
| "format_val (PyStr s) = s"

text \<open>\<^verbatim>\<open>sub in s\<close> on strings: \<open>sub\<close> occurs in \<open>s\<close> as a contiguous piece.\<close>

fun contains :: "string \<Rightarrow> string \<Rightarrow> bool" where
  "contains sub [] = (sub = [])"
| "contains sub (c # cs) = (prefix sub (c # cs) \<or> contains sub cs)"

section \<open>The rebuilder and its key selector\<close>

text \<open>
  The fields of \<^verbatim>\<open>AvbRebuilder\<close> that the rebuild reads. \<open>private_key\<close> is \<^verbatim>\<open>None\<close>
  unless the caller named a key at startup; then \<^verbatim>\<open>__init__\<close> stores its normalised path
  here, and that path alone in \<open>available_keys\<close>. \<open>python_executable\<close> is the module
  constant \<^verbatim>\<open>PYTHON_EXECUTABLE\<close>.
\<close>

record rebuilder =
  python_executable :: string
  avbtool_path :: string
  private_key :: pyval
  available_keys :: "string list"

text \<open>
  \<^verbatim>\<open>detect_required_key_type\<close>: the algorithm may be \<^verbatim>\<open>None\<close> (an image report without an
  algorithm line); \<^verbatim>\<open>None in [...]\<close> is false, so it takes the last branch, which prints an
  error and calls \<^verbatim>\<open>sys.exit(1)\<close>.
\<close>

definition detect_required_key_type :: "pyval \<Rightarrow> error + string" where
  "detect_required_key_type algorithm =
     (if algorithm \<in> set [PyStr ''SHA256_RSA4096'', PyStr ''SHA512_RSA4096''] then Inr ''4096''
      else if algorithm \<in> set [PyStr ''SHA256_RSA2048'', PyStr ''SHA512_RSA2048''] then Inr ''2048''
      else Inl (SystemExit 1))"

text \<open>The loop over \<^verbatim>\<open>self.available_keys\<close>: the first path containing \<^verbatim>\<open>rsa<type>\<close>.\<close>

fun first_matching_key :: "string \<Rightarrow> string list \<Rightarrow> error + string" where
  "first_matching_key required_type [] = Inl (SystemExit 1)"
| "first_matching_key required_type (key_path # keys) =
     (if contains (''rsa'' @ required_type) key_path then Inr key_path
      else first_matching_key required_type keys)"

definition get_key_for_algorithm :: "rebuilder \<Rightarrow> pyval \<Rightarrow> error + string" where
  "get_key_for_algorithm self algorithm =
     (case detect_required_key_type algorithm of
        Inl e \<Rightarrow> Inl e
      | Inr required_type \<Rightarrow>
          (case private_key self of
             PyStr k \<Rightarrow>
               if k \<noteq> [] then Inr k
               else first_matching_key required_type (available_keys self)
           | PyNone \<Rightarrow> first_matching_key required_type (available_keys self)))"

section \<open>Image metadata and the classifier\<close>

text \<open>
  The dictionary \<^verbatim>\<open>parse_image_info\<close> returns: the scalar entries (\<^verbatim>\<open>algorithm\<close>,
  \<^verbatim>\<open>rollback_index\<close>, \<^verbatim>\<open>flags\<close>, \<^verbatim>\<open>image_size\<close>, \<^verbatim>\<open>original_image_size\<close>) as a dictionary
  and the entry \<^verbatim>\<open>descriptors\<close>, a list of dictionaries, beside it.
\<close>

record image_info =
  scalars :: pydict
  descriptors :: "pydict list"

text \<open>
  The test both \<^verbatim>\<open>rebuild_all\<close> and \<^verbatim>\<open>rebuild_partition\<close> make:
  \<^verbatim>\<open>current_info and current_info.get('algorithm') and current_info['algorithm'] != 'NONE'\<close>.
  The info dictionary always has entries, so it is false only when it is \<^verbatim>\<open>None\<close>.
\<close>

definition is_chained :: "image_info option \<Rightarrow> bool" where
  "is_chained current_info =
     (case current_info of
        None \<Rightarrow> False
      | Some info \<Rightarrow>
          truthy (dict_get (scalars info) ''algorithm'')
          \<and> dict_index (scalars info) ''algorithm'' \<noteq> Inr (PyStr ''NONE''))"

section \<open>The metadata parser\<close>

subsection \<open>Regular expressions\<close>

text \<open>
  The character classes of Python's \<^verbatim>\<open>re\<close> on ASCII text: \<^verbatim>\<open>\s\<close> (tab, line feed, vertical
  tab, form feed, carriage return, the four separators 0x1C to 0x1F and the space),
  \<^verbatim>\<open>\d\<close> and \<^verbatim>\<open>[a-fA-F0-9]\<close>.
\<close>

definition is_space :: "char \<Rightarrow> bool" where
  "is_space c = (c \<in> set [CHR 0x09, CHR 0x0A, CHR 0x0B, CHR 0x0C, CHR 0x0D,
                            CHR 0x1C, CHR 0x1D, CHR 0x1E, CHR 0x1F, CHR '' ''])"

definition is_digit :: "char \<Rightarrow> bool" where
  "is_digit c = (c \<in> set ''0123456789'')"

definition is_hex :: "char \<Rightarrow> bool" where
  "is_hex c = (c \<in> set ''abcdefABCDEF0123456789'')"

text \<open>
  Every pattern of the script is a sequence of literal pieces and greedy repetitions of
  one character class (\<^verbatim>\<open>\s+\<close>, \<^verbatim>\<open>(\d+)\<close>, \<^verbatim>\<open>([^']*)\<close>): \<open>Rep cls least captured\<close>
  repeats \<open>cls\<close> at least \<open>least\<close> times and is a capturing group when \<open>captured\<close>.
\<close>

datatype item = Lit string | Rep "char \<Rightarrow> bool" nat bool

text \<open>
  Matching at the start of a text, with backtracking as \<^verbatim>\<open>re\<close> does it: a repetition first
  takes as many characters as it can and gives them back one by one while the rest of the
  pattern fails. The result is the list of the groups' texts.
\<close>

function match_here :: "item list \<Rightarrow> string \<Rightarrow> string list option"
  and match_rep :: "(char \<Rightarrow> bool) \<Rightarrow> nat \<Rightarrow> bool \<Rightarrow> item list \<Rightarrow> string \<Rightarrow> nat
                     \<Rightarrow> string list option" where
  "match_here [] s = Some []"
| "match_here (Lit l # r) s = (if prefix l s then match_here r (drop (length l) s) else None)"
| "match_here (Rep cls least captured # r) s =
     match_rep cls least captured r s (length (takeWhile cls s))"
| "match_rep cls least captured r s k =
     (if k < least then None
      else (case match_here r (drop k s) of
              Some groups \<Rightarrow> Some (if captured then take k s # groups else groups)
            | None \<Rightarrow> (case k of 0 \<Rightarrow> None | Suc j \<Rightarrow> match_rep cls least captured r s j)))"
  by pat_completeness auto
termination
  by (relation "measures [\<lambda>x. case x of Inl (p, s) \<Rightarrow> length p | Inr (c, l, b, r, s, k) \<Rightarrow> length r,
                          \<lambda>x. case x of Inl (p, s) \<Rightarrow> 0 | Inr (c, l, b, r, s, k) \<Rightarrow> Suc k]") auto

declare match_rep.simps [simp del]

text \<open>\<^verbatim>\<open>re.search\<close>: the leftmost position where the pattern matches.\<close>

fun re_search :: "item list \<Rightarrow> string \<Rightarrow> string list option" where
  "re_search pat [] = match_here pat []"
| "re_search pat (c # cs) =
     (case match_here pat (c # cs) of Some groups \<Rightarrow> Some groups | None \<Rightarrow> re_search pat cs)"

text \<open>\<^verbatim>\<open>_extract_pattern\<close>: \<^verbatim>\<open>match.group(1) if match else None\<close>.\<close>

definition extract_pattern :: "string \<Rightarrow> item list \<Rightarrow> pyval" where
  "extract_pattern text pattern =
     (case re_search pattern text of Some (g # _) \<Rightarrow> PyStr g | _ \<Rightarrow> PyNone)"

text \<open>
  The shape nearly all patterns share, \<^verbatim>\<open>Label:\s+(cls+)tail\<close>; for example
  \<^verbatim>\<open>Image Size:\s+(\d+) bytes\<close> is \<open>field ''Image Size:'' is_digit '' bytes''\<close>.
\<close>

definition field :: "string \<Rightarrow> (char \<Rightarrow> bool) \<Rightarrow> string \<Rightarrow> item list" where
  "field label cls tail = [Lit label, Rep is_space 1 False, Rep cls 1 True, Lit tail]"

definition non_space :: "char \<Rightarrow> bool" where
  "non_space c = (\<not> is_space c)"

subsection \<open>Descriptor bodies\<close>

definition parse_hash_descriptor :: "string \<Rightarrow> pydict" where
  "parse_hash_descriptor content = map_of
     [(''image_size'', extract_pattern content (field ''Image Size:'' is_digit '' bytes'')),
      (''hash_algorithm'', extract_pattern content (field ''Hash Algorithm:'' non_space [])),
      (''partition_name'', extract_pattern content (field ''Partition Name:'' non_space [])),
      (''salt'', extract_pattern content (field ''Salt:'' is_hex [])),
      (''digest'', extract_pattern content (field ''Digest:'' is_hex [])),
      (''flags'', extract_pattern content (field ''Flags:'' is_digit []))]"

definition parse_hashtree_descriptor :: "string \<Rightarrow> pydict" where
  "parse_hashtree_descriptor content = map_of
     [(''image_size'', extract_pattern content (field ''Image Size:'' is_digit '' bytes'')),
      (''hash_algorithm'', extract_pattern content (field ''Hash Algorithm:'' non_space [])),
      (''partition_name'', extract_pattern content (field ''Partition Name:'' non_space [])),
      (''salt'', extract_pattern content (field ''Salt:'' is_hex [])),
      (''root_digest'', extract_pattern content (field ''Root Digest:'' is_hex [])),
      (''flags'', extract_pattern content (field ''Flags:'' is_digit [])),
      (''tree_offset'', extract_pattern content (field ''Tree Offset:'' is_digit [])),
      (''tree_size'', extract_pattern content (field ''Tree Size:'' is_digit '' bytes'')),
      (''data_block_size'',
         extract_pattern content (field ''Data Block Size:'' is_digit '' bytes'')),
      (''hash_block_size'',
         extract_pattern content (field ''Hash Block Size:'' is_digit '' bytes''))]"

definition parse_chain_descriptor :: "string \<Rightarrow> pydict" where
  "parse_chain_descriptor content = map_of
     [(''partition_name'', extract_pattern content (field ''Partition Name:'' non_space [])),
      (''rollback_index_location'',
         extract_pattern content (field ''Rollback Index Location:'' is_digit [])),
      (''public_key_sha1'', extract_pattern content (field ''Public key (sha1):'' is_hex [])),
      (''flags'', extract_pattern content (field ''Flags:'' is_digit []))]"

text \<open>The property pattern \<^verbatim>\<open>(\S+)\s+->\s+'([^']*)'\<close>; the apostrophe is \<open>CHR 0x27\<close>.\<close>

definition prop_pattern :: "item list" where
  "prop_pattern =
     [Rep non_space 1 True, Rep is_space 1 False, Lit ''->'', Rep is_space 1 False,
      Lit [CHR 0x27], Rep (\<lambda>c. c \<noteq> CHR 0x27) 0 True, Lit [CHR 0x27]]"

definition parse_prop_descriptor :: "string \<Rightarrow> pydict" where
  "parse_prop_descriptor content =
     (case re_search prop_pattern content of
        Some (k # v # _) \<Rightarrow> map_of [(''key'', PyStr k), (''value'', PyStr v)]
      | _ \<Rightarrow> Map.empty)"

subsection \<open>Splitting the report into descriptor blocks\<close>

text \<open>
  The separator pattern
  \<^verbatim>\<open>    (Hash descriptor|Hashtree descriptor|Chain Partition descriptor|Prop):\<close>:
  four spaces, one of the labels (tried in this order) and a colon.
\<close>

definition descriptor_labels :: "string list" where
  "descriptor_labels =
     [''Hash descriptor'', ''Hashtree descriptor'', ''Chain Partition descriptor'', ''Prop'']"

definition separator :: "string \<Rightarrow> string" where
  "separator label = ''    '' @ label @ '':''"

definition separator_at :: "string \<Rightarrow> string option" where
  "separator_at s = find (\<lambda>label. prefix (separator label) s) descriptor_labels"

text \<open>
  \<^verbatim>\<open>re.split\<close> with one capturing group: the text before the first separator, then for
  each separator its label and the text up to the next separator. \<open>pending\<close> holds, in
  reverse, the characters read since the last separator.
\<close>

function re_split_from :: "string \<Rightarrow> string \<Rightarrow> string list" where
  "re_split_from pending s =
     (case separator_at s of
        Some label \<Rightarrow> rev pending # label # re_split_from [] (drop (length (separator label)) s)
      | None \<Rightarrow>
          (case s of
             [] \<Rightarrow> [rev pending]
           | c # cs \<Rightarrow> re_split_from (c # pending) cs))"
  by pat_completeness auto
termination
proof (relation "measure (\<lambda>(pending, s). length s)")
  show "wf (measure (\<lambda>(pending, s). length s))" by simp
next
  fix pending s :: string and label :: string
  assume "separator_at s = Some label"
  then have "prefix (separator label) s"
    by (auto simp: separator_at_def dest: find_Some_iff[THEN iffD1] split: if_splits)
  then have "s \<noteq> []" by (auto simp: separator_def)
  then show "(([], drop (length (separator label)) s), (pending, s))
               \<in> measure (\<lambda>(pending, s). length s)"
    by (simp add: separator_def)
next
  fix pending s :: string and c :: char and cs :: string
  assume "s = c # cs"
  then show "((c # pending, cs), (pending, s)) \<in> measure (\<lambda>(pending, s). length s)" by simp
qed

declare re_split_from.simps [simp del]

definition re_split :: "string \<Rightarrow> string list" where
  "re_split output = re_split_from [] output"

text \<open>\<^verbatim>\<open>str.strip()\<close>.\<close>

definition strip :: "string \<Rightarrow> string" where
  "strip s = rev (dropWhile is_space (rev (dropWhile is_space s)))"

text \<open>
  The body of the loop of \<^verbatim>\<open>_parse_descriptors\<close>: the chain of comparisons on the label.
  A label that is none of the four adds nothing (the chain has no \<^verbatim>\<open>else\<close>).
\<close>

definition parse_block :: "string \<Rightarrow> string \<Rightarrow> pydict list" where
  "parse_block desc_type desc_content =
     (if desc_type = ''Hash descriptor''
        then [(parse_hash_descriptor desc_content)(''type'' \<mapsto> PyStr ''hash'')]
      else if desc_type = ''Hashtree descriptor''
        then [(parse_hashtree_descriptor desc_content)(''type'' \<mapsto> PyStr ''hashtree'')]
      else if desc_type = ''Chain Partition descriptor''
        then [(parse_chain_descriptor desc_content)(''type'' \<mapsto> PyStr ''chain'')]
      else if desc_type = ''Prop''
        then [(parse_prop_descriptor desc_content)(''type'' \<mapsto> PyStr ''prop'')]
      else [])"

text \<open>
  The loop \<^verbatim>\<open>for i in range(1, len(descriptor_blocks), 2)\<close>, on the blocks from index 1:
  the label is \<^verbatim>\<open>descriptor_blocks[i].strip()\<close>, the body \<^verbatim>\<open>descriptor_blocks[i+1]\<close>, or
  the empty text when \<^verbatim>\<open>i+1\<close> is out of range.
\<close>

fun descriptor_loop :: "string list \<Rightarrow> pydict list" where
  "descriptor_loop [] = []"
| "descriptor_loop [t] = parse_block (strip t) []"
| "descriptor_loop (t # content # rest) = parse_block (strip t) content @ descriptor_loop rest"

definition parse_descriptors :: "string \<Rightarrow> pydict list" where
  "parse_descriptors output = descriptor_loop (drop 1 (re_split output))"

text \<open>The dictionary \<^verbatim>\<open>parse_image_info\<close> builds from the report text.\<close>

definition parse_report :: "string \<Rightarrow> image_info" where
  "parse_report output =
     \<lparr>scalars = map_of
        [(''algorithm'', extract_pattern output (field ''Algorithm:'' non_space [])),
         (''rollback_index'', extract_pattern output (field ''Rollback Index:'' is_digit [])),
         (''flags'', extract_pattern output (field ''Flags:'' is_digit [])),
         (''image_size'', extract_pattern output (field ''Image size:'' is_digit '' bytes'')),
         (''original_image_size'',
            extract_pattern output (field ''Original image size:'' is_digit '' bytes''))],
      descriptors = parse_descriptors output\<rparr>"

section \<open>Rebuild plans\<close>

subsection \<open>Numbers and letters\<close>

text \<open>
  \<^verbatim>\<open>int(s)\<close> on a text of decimal digits, which is what the parser's \<^verbatim>\<open>(\d+)\<close> yields; any
  other text is answered with \<open>ValueError\<close> here. \<^verbatim>\<open>str(n)\<close> writes the number back without
  leading zeros.
\<close>

definition digit_value :: "char \<Rightarrow> nat" where
  "digit_value c = length (takeWhile (\<lambda>d. d \<noteq> c) ''0123456789'')"

definition py_int :: "string \<Rightarrow> error + nat" where
  "py_int s =
     (if s \<noteq> [] \<and> list_all is_digit s then Inr (foldl (\<lambda>n c. 10 * n + digit_value c) 0 s)
      else Inl ValueError)"

function str_nat :: "nat \<Rightarrow> string" where
  "str_nat n =
     (if n < 10 then [''0123456789'' ! n]
      else str_nat (n div 10) @ [''0123456789'' ! (n mod 10)])"
  by pat_completeness auto
termination
  by (relation "measure id") auto

declare str_nat.simps [simp del]

text \<open>\<^verbatim>\<open>str.upper()\<close> on ASCII text.\<close>

definition upper_char :: "char \<Rightarrow> char" where
  "upper_char c =
     (case map_of (zip ''abcdefghijklmnopqrstuvwxyz'' ''ABCDEFGHIJKLMNOPQRSTUVWXYZ'') c of
        Some u \<Rightarrow> u
      | None \<Rightarrow> c)"

definition upper :: "string \<Rightarrow> string" where
  "upper s = map upper_char s"

subsection \<open>The chained plan\<close>

text \<open>
  The test \<^verbatim>\<open>desc.get('type') == 'hash' and desc.get('partition_name') == partition_name\<close>
  that both planners make on a descriptor.
\<close>

definition is_hash_for :: "string \<Rightarrow> pydict \<Rightarrow> bool" where
  "is_hash_for partition_name desc =
     (dict_get desc ''type'' = PyStr ''hash''
      \<and> dict_get desc ''partition_name'' = PyStr partition_name)"

text \<open>The test \<^verbatim>\<open>desc.get('type') == 'prop'\<close>.\<close>

definition is_prop :: "pydict \<Rightarrow> bool" where
  "is_prop desc = (dict_get desc ''type'' = PyStr ''prop'')"

text \<open>
  The first loop of \<^verbatim>\<open>_rebuild_chained_partition\<close>: \<open>hash_desc\<close> ends as the last Hash
  descriptor of the partition, \<open>props\<close> collects the Prop descriptors in their order.
\<close>

fun chained_scan :: "string \<Rightarrow> pydict list \<Rightarrow> pydict option \<Rightarrow> pydict list
                       \<Rightarrow> pydict option \<times> pydict list" where
  "chained_scan partition_name [] hash_desc props = (hash_desc, props)"
| "chained_scan partition_name (desc # rest) hash_desc props =
     (if is_hash_for partition_name desc
        then chained_scan partition_name rest (Some desc) props
      else if is_prop desc
        then chained_scan partition_name rest hash_desc (props @ [desc])
      else chained_scan partition_name rest hash_desc props)"

text \<open>
  \<^verbatim>\<open>if hash_desc and use_original_salt: salt = hash_desc['salt'] else: salt = None\<close>.
  A descriptor the loop selected has a \<^verbatim>\<open>type\<close> entry, so as a dictionary it is true.
\<close>

definition chained_salt :: "pydict option \<Rightarrow> bool \<Rightarrow> error + pyval" where
  "chained_salt hash_desc use_original_salt =
     (case hash_desc of
        Some d \<Rightarrow> if use_original_salt then dict_index d ''salt'' else Inr PyNone
      | None \<Rightarrow> Inr PyNone)"

text \<open>\<^verbatim>\<open>if salt and salt != "0" * len(salt): cmd.extend(["--salt", salt])\<close>.\<close>

definition chained_salt_args :: "pyval \<Rightarrow> pyval list" where
  "chained_salt_args salt =
     (case salt of
        PyStr s \<Rightarrow>
          if s \<noteq> [] \<and> s \<noteq> replicate (length s) (CHR ''0'') then [PyStr ''--salt'', salt] else []
      | PyNone \<Rightarrow> [])"

text \<open>The loop over \<open>props\<close>: only a property with a true key and a true value is passed.\<close>

definition chained_prop_args :: "pydict list \<Rightarrow> pyval list" where
  "chained_prop_args props = concat (map
     (\<lambda>prop. if truthy (dict_get prop ''key'') \<and> truthy (dict_get prop ''value'')
              then [PyStr ''--prop'',
                    PyStr (format_val (dict_get prop ''key'') @ '':''
                           @ format_val (dict_get prop ''value''))]
              else [])
     props)"

text \<open>
  The command line \<^verbatim>\<open>_rebuild_chained_partition\<close> builds, or the error that ends it
  first. \<open>algorithm\<close> and \<open>rollback_index\<close> are what \<^verbatim>\<open>rebuild_partition\<close> read from the
  image, so either may be \<^verbatim>\<open>None\<close>.
\<close>

definition chained_partition_cmd ::
  "rebuilder \<Rightarrow> string \<Rightarrow> string \<Rightarrow> nat \<Rightarrow> pyval \<Rightarrow> pyval \<Rightarrow> image_info \<Rightarrow> bool
     \<Rightarrow> error + pyval list" where
  "chained_partition_cmd self partition_name image_path partition_size algorithm rollback_index
       current_info use_original_salt =
     (case chained_scan partition_name (descriptors current_info) None [] of
        (hash_desc, props) \<Rightarrow>
          (case chained_salt hash_desc use_original_salt of
             Inl e \<Rightarrow> Inl e
           | Inr salt \<Rightarrow>
               (case get_key_for_algorithm self algorithm of
                  Inl e \<Rightarrow> Inl e
                | Inr suitable_key \<Rightarrow>
                    Inr ([PyStr (python_executable self), PyStr (avbtool_path self),
                          PyStr ''add_hash_footer'',
                          PyStr ''--image'', PyStr image_path,
                          PyStr ''--partition_name'', PyStr partition_name,
                          PyStr ''--partition_size'', PyStr (str_nat partition_size),
                          PyStr ''--algorithm'', algorithm,
                          PyStr ''--key'', PyStr suitable_key,
                          PyStr ''--rollback_index'', rollback_index]
                         @ chained_salt_args salt
                         @ chained_prop_args props))))"

subsection \<open>The regular plan\<close>

text \<open>
  The text \<^verbatim>\<open>f"{prop_key}:{prop_value}"\<close> of a Prop descriptor, with
  \<^verbatim>\<open>prop_key = desc.get('key', '')\<close> and \<^verbatim>\<open>prop_value = desc.get('value', '')\<close>, is
  \<open>prop_text\<close> below.

  The loop of \<^verbatim>\<open>_rebuild_hash_partition\<close> over the descriptors, on the variables \<open>salt\<close>,
  \<open>algorithm\<close> and \<open>partition_props\<close>. For a Hash descriptor of the partition, with salt
  reuse on: \<^verbatim>\<open>.upper()\<close> on \<^verbatim>\<open>None\<close> raises \<open>AttributeError\<close> (the default \<^verbatim>\<open>'sha256'\<close> is
  taken only when the entry is missing), and the log line's \<^verbatim>\<open>salt[:16]\<close> on \<^verbatim>\<open>None\<close> raises
  \<open>TypeError\<close>.
\<close>

definition prop_text :: "pydict \<Rightarrow> string" where
  "prop_text desc =
     format_val (dict_get_default desc ''key'' (PyStr [])) @ '':''
     @ format_val (dict_get_default desc ''value'' (PyStr []))"

fun hash_scan :: "string \<Rightarrow> bool \<Rightarrow> pydict list \<Rightarrow> pyval \<Rightarrow> string \<Rightarrow> string list
                    \<Rightarrow> error + (pyval \<times> string \<times> string list)" where
  "hash_scan partition_name use_original_salt [] salt algorithm partition_props =
     Inr (salt, algorithm, partition_props)"
| "hash_scan partition_name use_original_salt (desc # rest) salt algorithm partition_props =
     (if is_hash_for partition_name desc then
        (if use_original_salt then
           (case dict_get_default desc ''hash_algorithm'' (PyStr ''sha256'') of
              PyNone \<Rightarrow> Inl AttributeError
            | PyStr h \<Rightarrow>
                (case dict_get desc ''salt'' of
                   PyNone \<Rightarrow> Inl TypeError
                 | PyStr s \<Rightarrow>
                     hash_scan partition_name use_original_salt rest (PyStr s)
                       (if upper h = ''SHA256'' then ''NONE'' else upper h) partition_props))
         else hash_scan partition_name use_original_salt rest salt algorithm partition_props)
      else if is_prop desc then
        hash_scan partition_name use_original_salt rest salt algorithm
          (partition_props @ [prop_text desc])
      else hash_scan partition_name use_original_salt rest salt algorithm partition_props)"

text \<open>
  The variables after the loop, which runs only when the descriptor list is not empty;
  they start as \<^verbatim>\<open>None\<close>, \<^verbatim>\<open>"NONE"\<close> and the empty list.
\<close>

definition hash_partition_scan :: "string \<Rightarrow> image_info \<Rightarrow> bool
                                     \<Rightarrow> error + (pyval \<times> string \<times> string list)" where
  "hash_partition_scan partition_name current_info use_original_salt =
     (if descriptors current_info \<noteq> []
      then hash_scan partition_name use_original_salt (descriptors current_info)
             PyNone ''NONE'' []
      else Inr (PyNone, ''NONE'', []))"

text \<open>The command line, from the salt finally used.\<close>

definition hash_footer_cmd ::
  "rebuilder \<Rightarrow> string \<Rightarrow> string \<Rightarrow> nat \<Rightarrow> string \<Rightarrow> string \<Rightarrow> string list \<Rightarrow> pyval list" where
  "hash_footer_cmd self partition_name image_path partition_size algorithm salt partition_props =
     [PyStr (python_executable self), PyStr (avbtool_path self),
      PyStr ''add_hash_footer'',
      PyStr ''--image'', PyStr image_path,
      PyStr ''--partition_name'', PyStr partition_name,
      PyStr ''--partition_size'', PyStr (str_nat partition_size),
      PyStr ''--algorithm'', PyStr algorithm,
      PyStr ''--salt'', PyStr salt]
     @ concat (map (\<lambda>prop. [PyStr ''--prop'', PyStr prop]) partition_props)"

text \<open>
  The command line \<^verbatim>\<open>_rebuild_hash_partition\<close> builds, or the error that ends it first.
  \<open>fresh\<close> is the value \<^verbatim>\<open>secrets.token_hex(32)\<close> returns if it is called, which is when the
  salt is \<^verbatim>\<open>None\<close> or empty after the loop.
\<close>

definition hash_partition_cmd ::
  "rebuilder \<Rightarrow> string \<Rightarrow> string \<Rightarrow> nat \<Rightarrow> image_info \<Rightarrow> bool \<Rightarrow> string
     \<Rightarrow> error + pyval list" where
  "hash_partition_cmd self partition_name image_path partition_size current_info
       use_original_salt fresh =
     (case hash_partition_scan partition_name current_info use_original_salt of
        Inl e \<Rightarrow> Inl e
      | Inr (salt, algorithm, partition_props) \<Rightarrow>
          Inr (hash_footer_cmd self partition_name image_path partition_size algorithm
                 (if truthy salt then format_val salt else fresh) partition_props))"

section \<open>The run: external tool, file system and orchestration\<close>

subsection \<open>What the script calls outside itself\<close>

text \<open>
  The signing tool, the file system and the random source are parameters. \<open>'w\<close> is the
  state of the world outside the script.
  \<^item> \<open>subprocess_run argv w\<close> is \<^verbatim>\<open>subprocess.run(argv, capture_output=True, text=True,
    check=True)\<close>: the captured standard output when the exit status is zero, \<open>None\<close> when
    \<^verbatim>\<open>CalledProcessError\<close> is raised, and the world afterwards;
  \<^item> \<open>path_exists\<close> is \<^verbatim>\<open>os.path.exists\<close>, \<open>shutil_move\<close> is \<^verbatim>\<open>shutil.move\<close>;
  \<^item> \<open>token_hex\<close> is \<^verbatim>\<open>secrets.token_hex(32)\<close>.
\<close>

record 'w system =
  subprocess_run :: "string list \<Rightarrow> 'w \<Rightarrow> string option \<times> 'w"
  path_exists :: "string \<Rightarrow> 'w \<Rightarrow> bool"
  shutil_move :: "string \<Rightarrow> string \<Rightarrow> 'w \<Rightarrow> 'w"
  token_hex :: "'w \<Rightarrow> string \<times> 'w"

text \<open>
  The state a run threads through: the world, and the command lines handed to the tool so
  far, in order (the \<^verbatim>\<open>[CMD]\<close> lines of the log).
\<close>

record 'w run_state =
  world :: 'w
  commands :: "string list list"

text \<open>
  \<^verbatim>\<open>run_command\<close>. The log line \<^verbatim>\<open>' '.join(cmd)\<close> comes before the call and raises
  \<open>TypeError\<close> when an element of \<open>cmd\<close> is \<^verbatim>\<open>None\<close>; nothing is run then. Otherwise the
  result is the tool's output, or \<open>None\<close> for the caught \<^verbatim>\<open>CalledProcessError\<close>.
\<close>

definition run_command ::
  "'w system \<Rightarrow> pyval list \<Rightarrow> 'w run_state \<Rightarrow> (error + string option) \<times> 'w run_state" where
  "run_command sys cmd s =
     (if PyNone \<in> set cmd then (Inl TypeError, s)
      else (case subprocess_run sys (map format_val cmd) (world s) of
              (result, w) \<Rightarrow>
                (Inr result, \<lparr>world = w, commands = commands s @ [map format_val cmd]\<rparr>)))"

text \<open>
  \<^verbatim>\<open>parse_image_info\<close>: \<open>None\<close> when the tool failed or printed nothing
  (\<^verbatim>\<open>if not result or not result.stdout\<close>).
\<close>

definition info_image_cmd :: "rebuilder \<Rightarrow> string \<Rightarrow> pyval list" where
  "info_image_cmd self image_path =
     [PyStr (python_executable self), PyStr (avbtool_path self), PyStr ''info_image'',
      PyStr ''--image'', PyStr image_path]"

definition parse_image_info ::
  "'w system \<Rightarrow> rebuilder \<Rightarrow> string \<Rightarrow> 'w run_state
     \<Rightarrow> (error + image_info option) \<times> 'w run_state" where
  "parse_image_info sys self image_path s =
     (case run_command sys (info_image_cmd self image_path) s of
        (Inl e, s') \<Rightarrow> (Inl e, s')
      | (Inr result, s') \<Rightarrow>
          (Inr (case result of
                  None \<Rightarrow> None
                | Some output \<Rightarrow> if output = [] then None else Some (parse_report output)),
           s'))"

subsection \<open>Rebuilding one partition\<close>

text \<open>\<^verbatim>\<open>_rebuild_chained_partition\<close>: build the command line, run it, report whether it ran.\<close>

definition rebuild_chained_partition ::
  "'w system \<Rightarrow> rebuilder \<Rightarrow> string \<Rightarrow> string \<Rightarrow> nat \<Rightarrow> pyval \<Rightarrow> pyval \<Rightarrow> image_info
     \<Rightarrow> bool \<Rightarrow> 'w run_state \<Rightarrow> (error + bool) \<times> 'w run_state" where
  "rebuild_chained_partition sys self partition_name image_path partition_size algorithm
       rollback_index current_info use_original_salt s =
     (case chained_partition_cmd self partition_name image_path partition_size algorithm
             rollback_index current_info use_original_salt of
        Inl e \<Rightarrow> (Inl e, s)
      | Inr cmd \<Rightarrow>
          (case run_command sys cmd s of
             (Inl e, s') \<Rightarrow> (Inl e, s')
           | (Inr result, s') \<Rightarrow> (Inr (result \<noteq> None), s')))"

text \<open>
  \<^verbatim>\<open>_rebuild_hash_partition\<close>. \<^verbatim>\<open>secrets.token_hex\<close> is called only when the loop left no
  salt. The parameter \<open>vbmeta_info\<close> is never read.
\<close>

definition rebuild_hash_partition ::
  "'w system \<Rightarrow> rebuilder \<Rightarrow> string \<Rightarrow> string \<Rightarrow> nat \<Rightarrow> image_info option \<Rightarrow> image_info
     \<Rightarrow> bool \<Rightarrow> 'w run_state \<Rightarrow> (error + bool) \<times> 'w run_state" where
  "rebuild_hash_partition sys self partition_name image_path partition_size vbmeta_info
       current_info use_original_salt s =
     (case hash_partition_scan partition_name current_info use_original_salt of
        Inl e \<Rightarrow> (Inl e, s)
      | Inr (salt, algorithm, partition_props) \<Rightarrow>
          (case (if truthy salt then (format_val salt, world s) else token_hex sys (world s)) of
             (salt', w) \<Rightarrow>
               (case run_command sys
                       (hash_footer_cmd self partition_name image_path partition_size algorithm
                          salt' partition_props)
                       (s\<lparr>world := w\<rparr>) of
                  (Inl e, s') \<Rightarrow> (Inl e, s')
                | (Inr result, s') \<Rightarrow> (Inr (result \<noteq> None), s'))))"

definition erase_footer_cmd :: "rebuilder \<Rightarrow> string \<Rightarrow> pyval list" where
  "erase_footer_cmd self image_path =
     [PyStr (python_executable self), PyStr (avbtool_path self), PyStr ''erase_footer'',
      PyStr ''--image'', PyStr image_path]"

text \<open>
  \<^verbatim>\<open>rebuild_partition\<close>. For a chained image, \<open>chain_algorithm\<close> is
  \<^verbatim>\<open>current_info['algorithm']\<close> (the entry is there, the classifier has just read it) and
  \<open>chain_rollback_index\<close> is \<^verbatim>\<open>current_info.get('rollback_index', '0')\<close>. Without a true
  \<^verbatim>\<open>image_size\<close> the partition is given up (\<open>False\<close>). The footer is erased, the result of
  that command ignored, before the plan is made.
\<close>

definition rebuild_partition ::
  "'w system \<Rightarrow> rebuilder \<Rightarrow> string \<Rightarrow> string \<Rightarrow> image_info option \<Rightarrow> bool \<Rightarrow> 'w run_state
     \<Rightarrow> (error + bool) \<times> 'w run_state" where
  "rebuild_partition sys self partition_name image_path vbmeta_info use_original_salt s =
     (case parse_image_info sys self image_path s of
        (Inl e, s1) \<Rightarrow> (Inl e, s1)
      | (Inr None, s1) \<Rightarrow> (Inr False, s1)
      | (Inr (Some current_info), s1) \<Rightarrow>
          if truthy (dict_get (scalars current_info) ''image_size'') then
            (case py_int (format_val (dict_get (scalars current_info) ''image_size'')) of
               Inl e \<Rightarrow> (Inl e, s1)
             | Inr partition_size \<Rightarrow>
                 (case run_command sys (erase_footer_cmd self image_path) s1 of
                    (Inl e, s2) \<Rightarrow> (Inl e, s2)
                  | (Inr erased, s2) \<Rightarrow>
                      if is_chained (Some current_info) then
                        rebuild_chained_partition sys self partition_name image_path
                          partition_size
                          (dict_get (scalars current_info) ''algorithm'')
                          (dict_get_default (scalars current_info) ''rollback_index''
                             (PyStr ''0''))
                          current_info use_original_salt s2
                      else
                        rebuild_hash_partition sys self partition_name image_path
                          partition_size vbmeta_info current_info use_original_salt s2))
          else (Inr False, s1))"

subsection \<open>The umbrella container\<close>

text \<open>
  \<^verbatim>\<open>rebuild_vbmeta\<close>. \<open>partition_images\<close> is a dictionary from partition name to image
  path, kept as the list of its items in insertion order; the parameter \<open>backup_dir\<close> is
  never read and is left out. The key selector can end the process from here; an
  unreadable \<^verbatim>\<open>vbmeta.img\<close>, a failed tool run and a missing \<^verbatim>\<open>vbmeta_new.img\<close> make it
  return \<open>False\<close>.
\<close>

definition make_vbmeta_cmd ::
  "'w system \<Rightarrow> rebuilder \<Rightarrow> image_info \<Rightarrow> string \<Rightarrow> (string \<times> string) list \<Rightarrow> 'w
     \<Rightarrow> pyval list" where
  "make_vbmeta_cmd sys self vbmeta_info suitable_key partition_images w =
     [PyStr (python_executable self), PyStr (avbtool_path self), PyStr ''make_vbmeta_image'',
      PyStr ''--output'', PyStr ''vbmeta_new.img'',
      PyStr ''--algorithm'',
      dict_get_default (scalars vbmeta_info) ''algorithm'' (PyStr ''SHA256_RSA4096''),
      PyStr ''--key'', PyStr suitable_key,
      PyStr ''--rollback_index'',
      dict_get_default (scalars vbmeta_info) ''rollback_index'' (PyStr ''0''),
      PyStr ''--flags'', dict_get_default (scalars vbmeta_info) ''flags'' (PyStr ''0''),
      PyStr ''--rollback_index_location'', PyStr ''0'',
      PyStr ''--padding_size'', PyStr ''4096'',
      PyStr ''--include_descriptors_from_image'', PyStr ''vbmeta.img'']
     @ concat (map (\<lambda>(partition_name, image_path).
                      if path_exists sys image_path w
                      then [PyStr ''--include_descriptors_from_image'', PyStr image_path]
                      else [])
                 partition_images)"

definition rebuild_vbmeta ::
  "'w system \<Rightarrow> rebuilder \<Rightarrow> (string \<times> string) list \<Rightarrow> 'w run_state
     \<Rightarrow> (error + bool) \<times> 'w run_state" where
  "rebuild_vbmeta sys self partition_images s =
     (case parse_image_info sys self ''vbmeta.img'' s of
        (Inl e, s1) \<Rightarrow> (Inl e, s1)
      | (Inr None, s1) \<Rightarrow> (Inr False, s1)
      | (Inr (Some vbmeta_info), s1) \<Rightarrow>
          (case get_key_for_algorithm self
                  (dict_get_default (scalars vbmeta_info) ''algorithm''
                     (PyStr ''SHA256_RSA4096'')) of
             Inl e \<Rightarrow> (Inl e, s1)
           | Inr suitable_key \<Rightarrow>
               (case run_command sys
                       (make_vbmeta_cmd sys self vbmeta_info suitable_key partition_images
                          (world s1)) s1 of
                  (Inl e, s2) \<Rightarrow> (Inl e, s2)
                | (Inr result, s2) \<Rightarrow>
                    if result \<noteq> None \<and> path_exists sys ''vbmeta_new.img'' (world s2)
                    then (Inr True,
                          s2\<lparr>world := shutil_move sys ''vbmeta_new.img'' ''vbmeta.img''
                                         (world s2)\<rparr>)
                    else (Inr False, s2))))"

subsection \<open>Discovery and verification\<close>

text \<open>\<^verbatim>\<open>detect_partition_images\<close>: the whitelist, filtered by the files that exist.\<close>

definition detect_partition_images :: "'w system \<Rightarrow> 'w \<Rightarrow> (string \<times> string) list" where
  "detect_partition_images sys w =
     map (\<lambda>part. (part, part @ ''.img''))
       (filter (\<lambda>part. path_exists sys (part @ ''.img'') w) [''boot'', ''init_boot''])"

text \<open>
  Dictionary assignment \<^verbatim>\<open>d[k] = v\<close> on the list of items: an existing key keeps its place,
  a new one goes last.
\<close>

fun dict_set :: "('k \<times> 'v) list \<Rightarrow> 'k \<Rightarrow> 'v \<Rightarrow> ('k \<times> 'v) list" where
  "dict_set [] k v = [(k, v)]"
| "dict_set ((k', v') # d) k v = (if k' = k then (k, v) # d else (k', v') # dict_set d k v)"

text \<open>\<^verbatim>\<open>dict(pairs)\<close>.\<close>

definition py_dict :: "('k \<times> 'v) list \<Rightarrow> ('k \<times> 'v) list" where
  "py_dict pairs = foldl (\<lambda>d (k, v). dict_set d k v) [] pairs"

text \<open>\<^verbatim>\<open>s.endswith(suffix)\<close> and \<^verbatim>\<open>s.replace('.img', '')\<close>.\<close>

definition endswith :: "string \<Rightarrow> string \<Rightarrow> bool" where
  "endswith s suff = prefix (rev suff) (rev s)"

function remove_img :: "string \<Rightarrow> string" where
  "remove_img s =
     (if s = [] then []
      else if prefix ''.img'' s then remove_img (drop 4 s)
      else hd s # remove_img (tl s))"
  by pat_completeness auto
termination
  by (relation "measure length") (auto simp: less_Suc_eq_le)

declare remove_img.simps [simp del]

text \<open>
  The loop of \<^verbatim>\<open>rebuild_all\<close> over an explicit list of partitions: one round, then all
  of them from the empty dictionary.
\<close>

definition image_file :: "string \<Rightarrow> string" where
  "image_file part = (if \<not> endswith part ''.img'' then part @ ''.img'' else part)"

definition add_specified ::
  "'w system \<Rightarrow> 'w \<Rightarrow> (string \<times> string) list \<Rightarrow> string \<Rightarrow> (string \<times> string) list" where
  "add_specified sys w partition_images part =
     (if path_exists sys (image_file part) w
      then dict_set partition_images (remove_img (image_file part)) (image_file part)
      else partition_images)"

definition specified_images ::
  "'w system \<Rightarrow> 'w \<Rightarrow> string list \<Rightarrow> (string \<times> string) list" where
  "specified_images sys w partitions = foldl (add_specified sys w) [] partitions"

text \<open>\<^verbatim>\<open>if partitions: ... else: partition_images = self.detect_partition_images()\<close>.\<close>

definition select_images ::
  "'w system \<Rightarrow> string list option \<Rightarrow> 'w \<Rightarrow> (string \<times> string) list" where
  "select_images sys partitions w =
     (case partitions of
        None \<Rightarrow> detect_partition_images sys w
      | Some ps \<Rightarrow> if ps = [] then detect_partition_images sys w
                   else specified_images sys w ps)"

text \<open>\<^verbatim>\<open>verify_result\<close>: reports are read and printed, nothing is decided on them.\<close>

fun verify_images ::
  "'w system \<Rightarrow> rebuilder \<Rightarrow> (string \<times> string) list \<Rightarrow> 'w run_state
     \<Rightarrow> (error + unit) \<times> 'w run_state" where
  "verify_images sys self [] s = (Inr (), s)"
| "verify_images sys self ((partition_name, image_path) # rest) s =
     (case parse_image_info sys self image_path s of
        (Inl e, s') \<Rightarrow> (Inl e, s')
      | (Inr info, s') \<Rightarrow> verify_images sys self rest s')"

definition verify_result ::
  "'w system \<Rightarrow> rebuilder \<Rightarrow> 'w run_state \<Rightarrow> (error + unit) \<times> 'w run_state" where
  "verify_result sys self s =
     (case (if path_exists sys ''vbmeta.img'' (world s)
            then (case parse_image_info sys self ''vbmeta.img'' s of
                    (Inl e, s') \<Rightarrow> (Inl e, s')
                  | (Inr info, s') \<Rightarrow> (Inr (), s'))
            else (Inr (), s)) of
        (Inl e, s1) \<Rightarrow> (Inl e, s1)
      | (Inr u, s1) \<Rightarrow> verify_images sys self (detect_partition_images sys (world s1)) s1)"

subsection \<open>The whole run\<close>

text \<open>
  The classification loop of \<^verbatim>\<open>rebuild_all\<close>: every image's report is read, and the image
  goes to \<open>chained_partitions\<close> or to \<open>regular_partitions\<close>.
\<close>

fun classify_images ::
  "'w system \<Rightarrow> rebuilder \<Rightarrow> (string \<times> string) list
     \<Rightarrow> (string \<times> string) list \<Rightarrow> (string \<times> string) list \<Rightarrow> 'w run_state
     \<Rightarrow> (error + (string \<times> string) list \<times> (string \<times> string) list) \<times> 'w run_state" where
  "classify_images sys self [] chained_partitions regular_partitions s =
     (Inr (chained_partitions, regular_partitions), s)"
| "classify_images sys self ((partition_name, image_path) # rest) chained_partitions
       regular_partitions s =
     (case parse_image_info sys self image_path s of
        (Inl e, s') \<Rightarrow> (Inl e, s')
      | (Inr current_info, s') \<Rightarrow>
          if is_chained current_info
          then classify_images sys self rest
                 (chained_partitions @ [(partition_name, image_path)]) regular_partitions s'
          else classify_images sys self rest chained_partitions
                 (regular_partitions @ [(partition_name, image_path)]) s')"

text \<open>
  The two rebuild loops: \<open>success_count\<close> grows by one for each partition whose rebuild
  returns \<open>True\<close>; an error inside a rebuild ends the run.
\<close>

fun rebuild_each ::
  "'w system \<Rightarrow> rebuilder \<Rightarrow> (string \<times> string) list \<Rightarrow> image_info option \<Rightarrow> bool \<Rightarrow> nat
     \<Rightarrow> 'w run_state \<Rightarrow> (error + nat) \<times> 'w run_state" where
  "rebuild_each sys self [] vbmeta_info use_original_salt success_count s =
     (Inr success_count, s)"
| "rebuild_each sys self ((partition_name, image_path) # rest) vbmeta_info use_original_salt
       success_count s =
     (case rebuild_partition sys self partition_name image_path vbmeta_info
             use_original_salt s of
        (Inl e, s') \<Rightarrow> (Inl e, s')
      | (Inr ok, s') \<Rightarrow>
          rebuild_each sys self rest vbmeta_info use_original_salt
            (if ok then success_count + 1 else success_count) s')"

text \<open>
  The end of \<^verbatim>\<open>rebuild_all\<close>: without a rebuilt partition the run fails, otherwise the
  results are read back and the run succeeds.
\<close>

definition finish_run ::
  "'w system \<Rightarrow> rebuilder \<Rightarrow> nat \<Rightarrow> 'w run_state \<Rightarrow> (error + bool) \<times> 'w run_state" where
  "finish_run sys self success_count s =
     (if success_count = 0 then (Inr False, s)
      else (case verify_result sys self s of
              (Inl e, s') \<Rightarrow> (Inl e, s')
            | (Inr u, s') \<Rightarrow> (Inr True, s')))"

text \<open>
  The block \<^verbatim>\<open>if regular_partitions and not chained_mode\<close>: the umbrella container's
  report is read, the regular partitions are rebuilt, then the container. A \<open>False\<close> from
  \<^verbatim>\<open>rebuild_vbmeta\<close> only prints a warning. The result is the success count.
\<close>

definition rebuild_regular ::
  "'w system \<Rightarrow> rebuilder \<Rightarrow> (string \<times> string) list \<Rightarrow> bool \<Rightarrow> nat \<Rightarrow> 'w run_state
     \<Rightarrow> (error + nat) \<times> 'w run_state" where
  "rebuild_regular sys self regular_partitions use_original_salt success_count s =
     (case parse_image_info sys self ''vbmeta.img'' s of
        (Inl e, s1) \<Rightarrow> (Inl e, s1)
      | (Inr vbmeta_info, s1) \<Rightarrow>
          (case rebuild_each sys self regular_partitions vbmeta_info use_original_salt
                  success_count s1 of
             (Inl e, s2) \<Rightarrow> (Inl e, s2)
           | (Inr success_count', s2) \<Rightarrow>
               if regular_partitions \<noteq> [] then
                 (case rebuild_vbmeta sys self (py_dict regular_partitions) s2 of
                    (Inl e, s3) \<Rightarrow> (Inl e, s3)
                  | (Inr rebuilt, s3) \<Rightarrow> (Inr success_count', s3))
               else (Inr success_count', s2)))"

text \<open>
  \<^verbatim>\<open>rebuild_all\<close>. In chained mode the regular partitions are dropped; otherwise regular
  partitions need \<^verbatim>\<open>vbmeta.img\<close>, and its absence ends the run with \<open>False\<close> before
  anything is rebuilt. The chained partitions are rebuilt with \<^verbatim>\<open>{'descriptors': []}\<close> in
  the place of the umbrella container's report. (The dictionary \<open>partition_images\<close> is
  assigned once more in chained mode and not read again; that assignment is left out.)
\<close>

definition rebuild_all ::
  "'w system \<Rightarrow> rebuilder \<Rightarrow> string list option \<Rightarrow> bool \<Rightarrow> bool \<Rightarrow> 'w run_state
     \<Rightarrow> (error + bool) \<times> 'w run_state" where
  "rebuild_all sys self partitions use_original_salt chained_mode s =
     (if select_images sys partitions (world s) = [] then (Inr False, s)
      else
        (case classify_images sys self (select_images sys partitions (world s)) [] [] s of
           (Inl e, s1) \<Rightarrow> (Inl e, s1)
         | (Inr (chained_partitions, found_regular), s1) \<Rightarrow>
             if chained_mode \<and> chained_partitions = [] then (Inr False, s1)
             else if \<not> chained_mode \<and> found_regular \<noteq> []
                     \<and> \<not> path_exists sys ''vbmeta.img'' (world s1) then (Inr False, s1)
             else
               (case rebuild_each sys self chained_partitions
                       (Some \<lparr>scalars = Map.empty, descriptors = []\<rparr>) use_original_salt 0 s1 of
                  (Inl e, s2) \<Rightarrow> (Inl e, s2)
                | (Inr success_count, s2) \<Rightarrow>
                    if found_regular \<noteq> [] \<and> \<not> chained_mode then
                      (case rebuild_regular sys self found_regular use_original_salt
                              success_count s2 of
                         (Inl e, s3) \<Rightarrow> (Inl e, s3)
                       | (Inr success_count', s3) \<Rightarrow> finish_run sys self success_count' s3)
                    else finish_run sys self success_count s2)))"

text \<open>
  \<^verbatim>\<open>main\<close> returns what \<^verbatim>\<open>rebuild_all\<close> returns, and the process ends with
  \<^verbatim>\<open>sys.exit(0 if success else 1)\<close>.
\<close>

definition exit_status :: "bool \<Rightarrow> nat" where
  "exit_status success = (if success then 0 else 1)"

section \<open>Vocabulary of the statements\<close>

subsection \<open>Reports with descriptor blocks\<close>

text \<open>
  A report with descriptor blocks is a preamble followed by blocks, each a separator
  (four spaces, a label, a colon) and a body. It is well formed when neither the preamble
  nor a body contains a separator at any position (\<open>separator_free\<close>) and every label is
  one of the four (\<open>valid_blocks\<close>). \<open>variant_of\<close> names the variant a label introduces.
\<close>

fun separator_free :: "string \<Rightarrow> bool" where
  "separator_free [] = True"
| "separator_free (c # cs) = (separator_at (c # cs) = None \<and> separator_free cs)"

definition report_with_blocks :: "string \<Rightarrow> (string \<times> string) list \<Rightarrow> string" where
  "report_with_blocks preamble blocks =
     preamble @ concat (map (\<lambda>(label, body). separator label @ body) blocks)"

definition valid_blocks :: "(string \<times> string) list \<Rightarrow> bool" where
  "valid_blocks blocks =
     list_all (\<lambda>(label, body). label \<in> set descriptor_labels \<and> separator_free body) blocks"

definition variant_of :: "string \<Rightarrow> string" where
  "variant_of label =
     (if label = ''Hash descriptor'' then ''hash''
      else if label = ''Hashtree descriptor'' then ''hashtree''
      else if label = ''Chain Partition descriptor'' then ''chain''
      else ''prop'')"

text \<open>
  No piece cut from the end of a separator, other than the whole of it, starts like a
  separator does (with four spaces, or with as many spaces as it has characters).
\<close>

definition proper_suffixes_not_blank :: "string \<Rightarrow> bool" where
  "proper_suffixes_not_blank sep =
     list_all (\<lambda>us. us = [] \<or> us = sep \<or> \<not> prefix (take 4 us) ''    '') (suffixes sep)"

subsection \<open>Example inputs\<close>

text \<open>
  Descriptors and image dictionaries as the parser builds them, for the closed examples:
  a Hash descriptor with the given partition name, hash algorithm and salt; a Prop
  descriptor from a matched line (\<open>Some (key, value)\<close>) or from one the pattern did not
  match (\<open>None\<close>, no entries but the type); an image dictionary with the given algorithm,
  rollback index and descriptors.
\<close>

definition example_hash_desc :: "string \<Rightarrow> pyval \<Rightarrow> pyval \<Rightarrow> pydict" where
  "example_hash_desc partition_name hash_algorithm salt =
     (map_of [(''image_size'', PyStr ''1024''), (''hash_algorithm'', hash_algorithm),
              (''partition_name'', PyStr partition_name), (''salt'', salt),
              (''digest'', PyStr ''12ab''), (''flags'', PyStr ''0'')])
     (''type'' \<mapsto> PyStr ''hash'')"

definition example_prop_desc :: "(string \<times> string) option \<Rightarrow> pydict" where
  "example_prop_desc entry =
     (case entry of
        Some (k, v) \<Rightarrow> map_of [(''key'', PyStr k), (''value'', PyStr v)]
      | None \<Rightarrow> Map.empty)
     (''type'' \<mapsto> PyStr ''prop'')"

definition example_info :: "pyval \<Rightarrow> pyval \<Rightarrow> pydict list \<Rightarrow> image_info" where
  "example_info algorithm rollback_index descs =
     \<lparr>scalars = map_of [(''algorithm'', algorithm), (''rollback_index'', rollback_index),
                         (''flags'', PyStr ''0''), (''image_size'', PyStr ''4096''),
                         (''original_image_size'', PyStr ''1024'')],
      descriptors = descs\<rparr>"

definition example_rebuilder :: rebuilder where
  "example_rebuilder =
     \<lparr>python_executable = ''python3'', avbtool_path = ''tools/avbtool.py'',
      private_key = PyNone,
      available_keys = [''/w/tools/pem/testkey_rsa4096.pem'', ''/w/tools/pem/testkey_rsa2048.pem'']\<rparr>"

text \<open>
  Reports in the layout of the tool's \<^verbatim>\<open>info_image\<close>, cut down to the lines the examples
  need. \<open>quoted\<close> puts a value between apostrophes.
\<close>

definition report_lines :: "string list \<Rightarrow> string" where
  "report_lines ls = concat (map (\<lambda>l. l @ [CHR 0x0A]) ls)"

definition quoted :: "string \<Rightarrow> string" where
  "quoted v = [CHR 0x27] @ v @ [CHR 0x27]"

text \<open>
  An example world is the list of the files that exist. The example tool prints
  \<open>reports image\<close> for \<^verbatim>\<open>info_image\<close> and nothing for the other subcommands, fails on the
  subcommands listed in \<open>failing\<close>, and writes \<^verbatim>\<open>vbmeta_new.img\<close> when it makes the
  umbrella container.
\<close>

definition example_system :: "(string \<Rightarrow> string) \<Rightarrow> string list \<Rightarrow> string list system" where
  "example_system reports failing =
     \<lparr>subprocess_run = (\<lambda>argv w.
        if argv ! 2 \<in> set failing then (None, w)
        else if argv ! 2 = ''info_image'' then (Some (reports (argv ! 4)), w)
        else if argv ! 2 = ''make_vbmeta_image'' then (Some [], ''vbmeta_new.img'' # w)
        else (Some [], w)),
      path_exists = (\<lambda>p w. p \<in> set w),
      shutil_move = (\<lambda>src dst w. dst # removeAll src w),
      token_hex = (\<lambda>w. (replicate 64 (CHR ''a''), w))\<rparr>"

text \<open>
  The reports of the example runs: \<^verbatim>\<open>vbmeta.img\<close> with the given algorithm, and any other
  image as a regular partition of 4096 bytes without descriptors.
\<close>

definition example_reports :: "string \<Rightarrow> string \<Rightarrow> string" where
  "example_reports vbmeta_algorithm img =
     (if img = ''vbmeta.img''
      then report_lines [''Algorithm: '' @ vbmeta_algorithm, ''Rollback Index: 0'', ''Flags: 0'']
      else report_lines [''Image size: 4096 bytes'', ''Algorithm: NONE''])"

subsection \<open>The classification rule, in the words of the specification\<close>

text \<open>
  A partition is chained when its metadata could be read and the algorithm field is
  present, not empty and not the sentinel \<^verbatim>\<open>NONE\<close>; otherwise it is regular.
\<close>

definition spec_chained :: "image_info option \<Rightarrow> bool" where
  "spec_chained current_info =
     (case current_info of
        None \<Rightarrow> False
      | Some info \<Rightarrow>
          (case scalars info ''algorithm'' of
             Some (PyStr a) \<Rightarrow> a \<noteq> [] \<and> a \<noteq> ''NONE''
           | _ \<Rightarrow> False))"

text \<open>
  What \<^verbatim>\<open>parse_image_info\<close> returns for the images of a list when they are read one after
  the other from the state \<open>s\<close>.
\<close>

fun reports_read ::
  "'w system \<Rightarrow> rebuilder \<Rightarrow> (string \<times> string) list \<Rightarrow> 'w run_state
     \<Rightarrow> image_info option list" where
  "reports_read sys self [] s = []"
| "reports_read sys self ((partition_name, image_path) # rest) s =
     (case fst (parse_image_info sys self image_path s) of Inl e \<Rightarrow> None | Inr info \<Rightarrow> info)
     # reports_read sys self rest (snd (parse_image_info sys self image_path s))"

text \<open>
  The reports of an example run with two images: a chained \<^verbatim>\<open>init_boot.img\<close> and any other
  image as a regular partition.
\<close>

definition example_mixed_reports :: "string \<Rightarrow> string" where
  "example_mixed_reports img =
     (if img = ''init_boot.img''
      then report_lines [''Image size: 8192 bytes'', ''Algorithm: SHA256_RSA2048'',
                         ''Rollback Index: 0'']
      else report_lines [''Image size: 4096 bytes'', ''Algorithm: NONE''])"

subsection \<open>Entries of a dictionary as text\<close>

text \<open>The text of a dictionary entry; the empty text when the entry is absent.\<close>

definition text_or_empty :: "pyval option \<Rightarrow> string" where
  "text_or_empty entry = (case entry of Some (PyStr s) \<Rightarrow> s | _ \<Rightarrow> [])"

section \<open>Key selection\<close>

text \<open>
  C2, as amended. With an explicit private key the selector returns that key for each of
  the four recognised algorithm names, whatever the key's file name and whatever other keys
  are available (the strength check is bypassed). For every other algorithm, and for an
  absent one, \<open>detect_required_key_type\<close> runs first and ends the process, explicit key or
  not.
\<close>

theorem explicit_key_selected_after_algorithm_check:
  assumes "private_key self = PyStr k" and "k \<noteq> []"
  shows "get_key_for_algorithm self algorithm
           = (if algorithm \<in> PyStr ` {''SHA256_RSA4096'', ''SHA512_RSA4096'',
                                        ''SHA256_RSA2048'', ''SHA512_RSA2048''}
              then Inr k else Inl (SystemExit 1))"
  using assms by (auto simp: get_key_for_algorithm_def detect_required_key_type_def)

theorem explicit_key_selected_witness:
  "get_key_for_algorithm
     \<lparr>python_executable = ''python3'', avbtool_path = ''tools/avbtool.py'',
      private_key = PyStr ''/keys/custom.pem'', available_keys = [''/keys/custom.pem'']\<rparr>
     (PyStr ''SHA512_RSA2048'') = Inr ''/keys/custom.pem''"
  using explicit_key_selected_after_algorithm_check
    [of "\<lparr>python_executable = ''python3'', avbtool_path = ''tools/avbtool.py'',
          private_key = PyStr ''/keys/custom.pem'', available_keys = [''/keys/custom.pem'']\<rparr>"
        "''/keys/custom.pem''" "PyStr ''SHA512_RSA2048''"]
  by simp

text \<open>
  C2 as stated fails: with an explicit key and the algorithm name \<^verbatim>\<open>SHA256_RSA8192\<close>, which
  is none of the four, the selector does not return the key; the process exits.
\<close>

theorem explicit_key_unrecognized_algorithm_counterexample:
  "get_key_for_algorithm
     \<lparr>python_executable = ''python3'', avbtool_path = ''tools/avbtool.py'',
      private_key = PyStr ''/keys/custom.pem'', available_keys = [''/keys/custom.pem'']\<rparr>
     (PyStr ''SHA256_RSA8192'') = Inl (SystemExit 1)"
  by (simp add: get_key_for_algorithm_def detect_required_key_type_def)

section \<open>Classification\<close>

text \<open>
  The test of the code holds exactly when the algorithm entry is a non-empty string other
  than \<^verbatim>\<open>NONE\<close>; with the algorithm absent (no entry, or \<^verbatim>\<open>None\<close>), empty or equal to
  \<^verbatim>\<open>NONE\<close> it fails. It is the rule of the specification.
\<close>

lemma is_chained_iff:
  "is_chained (Some info)
     = (\<exists>a. scalars info ''algorithm'' = Some (PyStr a) \<and> a \<noteq> [] \<and> a \<noteq> ''NONE'')"
proof (cases "scalars info ''algorithm''")
  case None
  then show ?thesis by (simp add: is_chained_def dict_get_def)
next
  case (Some v)
  then show ?thesis
    by (cases v) (auto simp: is_chained_def dict_get_def dict_index_def)
qed

lemma is_chained_spec: "is_chained current_info = spec_chained current_info"
proof (cases current_info)
  case None
  then show ?thesis by (simp add: is_chained_def spec_chained_def)
next
  case (Some info)
  then show ?thesis
    by (auto simp: is_chained_iff spec_chained_def split: option.splits pyval.splits)
qed

section \<open>The parser returns the descriptor blocks, in order\<close>

lemma separator_at_None_iff:
  "separator_at s = None \<longleftrightarrow> (\<forall>l \<in> set descriptor_labels. \<not> prefix (separator l) s)"
  by (auto simp: separator_at_def find_None_iff)

lemma separator_at_hash: "separator_at (separator ''Hash descriptor'' @ rest) = Some ''Hash descriptor''"
  by (simp add: separator_at_def descriptor_labels_def separator_def)

lemma separator_at_hashtree:
  "separator_at (separator ''Hashtree descriptor'' @ rest) = Some ''Hashtree descriptor''"
  by (simp add: separator_at_def descriptor_labels_def separator_def)

lemma separator_at_chain:
  "separator_at (separator ''Chain Partition descriptor'' @ rest) = Some ''Chain Partition descriptor''"
  by (simp add: separator_at_def descriptor_labels_def separator_def)

lemma separator_at_prop: "separator_at (separator ''Prop'' @ rest) = Some ''Prop''"
  by (simp add: separator_at_def descriptor_labels_def separator_def)

lemma separator_at_separator:
  "l \<in> set descriptor_labels \<Longrightarrow> separator_at (separator l @ rest) = Some l"
  using separator_at_hash separator_at_hashtree separator_at_chain separator_at_prop
  unfolding descriptor_labels_def by auto

lemma psnb_prop: "proper_suffixes_not_blank (separator ''Prop'')"
  by code_simp

lemma psnb_hash: "proper_suffixes_not_blank (separator ''Hash descriptor'')"
  by code_simp

lemma psnb_hashtree: "proper_suffixes_not_blank (separator ''Hashtree descriptor'')"
  by code_simp

lemma psnb_chain: "proper_suffixes_not_blank (separator ''Chain Partition descriptor'')"
  by code_simp


lemma proper_suffixes_not_blank_labels:
  "l \<in> set descriptor_labels \<Longrightarrow> proper_suffixes_not_blank (separator l)"
  using psnb_prop psnb_hash psnb_hashtree psnb_chain
  unfolding descriptor_labels_def by auto

lemma prefix_take_mono: "prefix xs ys \<Longrightarrow> prefix (take n xs) (take n ys)"
  by (auto simp: prefix_def)

lemma separator_at_Nil: "separator_at [] = None"
  by (simp add: separator_at_def descriptor_labels_def separator_def)

lemma no_straddle:
  assumes t: "t \<noteq> []" and np: "\<not> prefix (separator l') t"
    and l': "l' \<in> set descriptor_labels"
  shows "\<not> prefix (separator l') (t @ separator l @ rest)"
proof
  assume "prefix (separator l') (t @ separator l @ rest)"
  with np obtain us where us: "separator l' = t @ us" and pre: "prefix us (separator l @ rest)"
    by (auto simp: prefix_append)
  from us np have ne: "us \<noteq> []" by auto
  from us t have nw: "us \<noteq> separator l'" by auto
  from us have "us \<in> set (suffixes (separator l'))"
    by (simp add: in_set_suffixes suffix_def)
  with proper_suffixes_not_blank_labels[OF l'] ne nw
  have nb: "\<not> prefix (take 4 us) ''    ''"
    by (auto simp: proper_suffixes_not_blank_def list_all_iff)
  from pre have "prefix (take 4 us) (take 4 (separator l @ rest))"
    by (rule prefix_take_mono)
  then have "prefix (take 4 us) ''    ''" by (simp add: separator_def)
  with nb show False by simp
qed

lemma separator_at_before_separator:
  assumes "t \<noteq> []" and "separator_at t = None"
  shows "separator_at (t @ separator l @ rest) = None"
  using assms no_straddle by (auto simp: separator_at_None_iff)

lemma re_split_from_unfold:
  "re_split_from pending s =
     (case separator_at s of
        Some label \<Rightarrow> rev pending # label # re_split_from [] (drop (length (separator label)) s)
      | None \<Rightarrow> (case s of [] \<Rightarrow> [rev pending] | c # cs \<Rightarrow> re_split_from (c # pending) cs))"
  by (rule re_split_from.simps)

lemma re_split_from_separator:
  assumes "l \<in> set descriptor_labels"
  shows "re_split_from pending (separator l @ rest) = rev pending # l # re_split_from [] rest"
  by (subst re_split_from_unfold) (simp add: separator_at_separator[OF assms])

lemma re_split_from_free_then_separator:
  assumes "separator_free s" and "l \<in> set descriptor_labels"
  shows "re_split_from pending (s @ separator l @ rest)
           = (rev pending @ s) # l # re_split_from [] rest"
  using assms(1)
proof (induction s arbitrary: pending)
  case Nil
  then show ?case using re_split_from_separator[OF assms(2)] by simp
next
  case (Cons c cs)
  then have "separator_at (c # cs) = None" and free: "separator_free cs" by simp_all
  then have none: "separator_at ((c # cs) @ separator l @ rest) = None"
    by (intro separator_at_before_separator) simp_all
  have "re_split_from pending ((c # cs) @ separator l @ rest)
          = re_split_from (c # pending) (cs @ separator l @ rest)"
    by (subst re_split_from_unfold) (use none in simp)
  also have "\<dots> = (rev (c # pending) @ cs) # l # re_split_from [] rest"
    by (rule Cons.IH[OF free])
  finally show ?case by simp
qed

lemma re_split_from_free:
  "separator_free s \<Longrightarrow> re_split_from pending s = [rev pending @ s]"
proof (induction s arbitrary: pending)
  case Nil
  show ?case by (subst re_split_from_unfold) (simp add: separator_at_Nil)
next
  case (Cons c cs)
  then have none: "separator_at (c # cs) = None" and free: "separator_free cs" by simp_all
  have "re_split_from pending (c # cs) = re_split_from (c # pending) cs"
    by (subst re_split_from_unfold) (use none in simp)
  with Cons.IH[OF free] show ?case by simp
qed

lemma re_split_from_blocks:
  assumes "separator_free s" and "valid_blocks blocks"
  shows "re_split_from pending (report_with_blocks s blocks)
           = (rev pending @ s) # concat (map (\<lambda>(label, body). [label, body]) blocks)"
  using assms
proof (induction blocks arbitrary: pending s)
  case Nil
  then show ?case by (simp add: report_with_blocks_def re_split_from_free)
next
  case (Cons b blocks)
  obtain l body where b: "b = (l, body)" by (cases b)
  from Cons.prems b have l: "l \<in> set descriptor_labels" and body: "separator_free body"
    and rest: "valid_blocks blocks" by (simp_all add: valid_blocks_def)
  have "report_with_blocks s (b # blocks) = s @ separator l @ report_with_blocks body blocks"
    by (simp add: report_with_blocks_def b)
  then have "re_split_from pending (report_with_blocks s (b # blocks))
          = (rev pending @ s) # l # re_split_from [] (report_with_blocks body blocks)"
    using re_split_from_free_then_separator[OF Cons.prems(1) l] by simp
  also have "re_split_from [] (report_with_blocks body blocks)
          = body # concat (map (\<lambda>(label, body). [label, body]) blocks)"
    using Cons.IH[OF body rest, of "[]"] by simp
  finally show ?case by (simp add: b)
qed

lemma strip_label: "l \<in> set descriptor_labels \<Longrightarrow> strip l = l"
  by (auto simp: descriptor_labels_def strip_def is_space_def)

lemma parse_block_label:
  "l \<in> set descriptor_labels \<Longrightarrow>
   \<exists>d. parse_block l body = [d] \<and> dict_get d ''type'' = PyStr (variant_of l)"
  by (auto simp: descriptor_labels_def parse_block_def variant_of_def dict_get_def)

lemma descriptor_loop_blocks:
  "valid_blocks blocks \<Longrightarrow>
   descriptor_loop (concat (map (\<lambda>(label, body). [label, body]) blocks))
     = concat (map (\<lambda>(label, body). parse_block label body) blocks)"
proof (induction blocks)
  case Nil
  then show ?case by simp
next
  case (Cons b blocks)
  obtain l body where b: "b = (l, body)" by (cases b)
  with Cons show ?case by (simp add: valid_blocks_def strip_label)
qed

lemma parse_descriptors_blocks:
  assumes "separator_free preamble" and "valid_blocks blocks"
  shows "parse_descriptors (report_with_blocks preamble blocks)
           = concat (map (\<lambda>(label, body). parse_block label body) blocks)"
  using re_split_from_blocks[OF assms, of "[]"] descriptor_loop_blocks[OF assms(2)]
  by (simp add: parse_descriptors_def re_split_def)

lemma tags_of_blocks:
  "valid_blocks blocks \<Longrightarrow>
   map (\<lambda>d. dict_get d ''type'') (concat (map (\<lambda>(label, body). parse_block label body) blocks))
     = map (\<lambda>(label, body). PyStr (variant_of label)) blocks"
proof (induction blocks)
  case Nil
  then show ?case by simp
next
  case (Cons b blocks)
  obtain l body where b: "b = (l, body)" by (cases b)
  from Cons.prems b have l: "l \<in> set descriptor_labels" and rest: "valid_blocks blocks"
    by (simp_all add: valid_blocks_def)
  from parse_block_label[OF l, of body] obtain d where
    "parse_block l body = [d]" "dict_get d ''type'' = PyStr (variant_of l)" by blast
  with Cons.IH[OF rest] show ?case by (simp add: b)
qed

text \<open>
  C8. For a well-formed report with \<open>N\<close> descriptor blocks the parser returns exactly
  \<open>N\<close> descriptors; their \<^verbatim>\<open>type\<close> entries are the variants of the blocks' labels, in the
  order of the blocks; each descriptor is what the extractor of its label reads from the
  block's body.
\<close>

theorem parser_descriptors_complete_in_order:
  assumes "separator_free preamble" and "valid_blocks blocks"
  shows "length (parse_descriptors (report_with_blocks preamble blocks)) = length blocks
       \<and> map (\<lambda>d. dict_get d ''type'') (parse_descriptors (report_with_blocks preamble blocks))
           = map (\<lambda>(label, body). PyStr (variant_of label)) blocks
       \<and> parse_descriptors (report_with_blocks preamble blocks)
           = concat (map (\<lambda>(label, body). parse_block label body) blocks)"
proof -
  have eq: "parse_descriptors (report_with_blocks preamble blocks)
           = concat (map (\<lambda>(label, body). parse_block label body) blocks)"
    by (rule parse_descriptors_blocks[OF assms])
  have tags: "map (\<lambda>d. dict_get d ''type'') (parse_descriptors (report_with_blocks preamble blocks))
           = map (\<lambda>(label, body). PyStr (variant_of label)) blocks"
    using tags_of_blocks[OF assms(2)] eq by simp
  from tags have "length (map (\<lambda>d. dict_get d ''type'')
                    (parse_descriptors (report_with_blocks preamble blocks)))
                = length (map (\<lambda>(label, body). PyStr (variant_of label)) blocks)"
    by simp
  then have "length (parse_descriptors (report_with_blocks preamble blocks)) = length blocks"
    by simp
  with tags eq show ?thesis by simp
qed

theorem parser_descriptors_witness:
  "map (\<lambda>d. dict_get d ''type'')
     (parse_descriptors
        (report_with_blocks (''Descriptors:'' @ [CHR 0x0A])
           [(''Hash descriptor'', [CHR 0x0A] @ ''      Partition Name:  boot'' @ [CHR 0x0A]),
            (''Prop'', '' a -> '' @ [CHR 0x27] @ ''x'' @ [CHR 0x27, CHR 0x0A]),
            (''Chain Partition descriptor'', [CHR 0x0A] @ ''      Flags:  0'' @ [CHR 0x0A])]))
   = [PyStr ''hash'', PyStr ''prop'', PyStr ''chain'']"
proof -
  have p: "separator_free (''Descriptors:'' @ [CHR 0x0A])" by code_simp
  have b: "valid_blocks
           [(''Hash descriptor'', [CHR 0x0A] @ ''      Partition Name:  boot'' @ [CHR 0x0A]),
            (''Prop'', '' a -> '' @ [CHR 0x27] @ ''x'' @ [CHR 0x27, CHR 0x0A]),
            (''Chain Partition descriptor'', [CHR 0x0A] @ ''      Flags:  0'' @ [CHR 0x0A])]"
    by code_simp
  from parser_descriptors_complete_in_order[OF p b, THEN conjunct2, THEN conjunct1]
  show ?thesis by (simp add: variant_of_def)
qed

section \<open>What the two scans compute\<close>

lemma hash_not_prop: "is_hash_for name d \<Longrightarrow> \<not> is_prop d"
  by (simp add: is_hash_for_def is_prop_def)

lemma list_ex_filter_Cons: "list_ex P xs \<Longrightarrow> \<exists>m ms. filter P xs = m # ms"
  by (cases "filter P xs") (auto simp: list_ex_iff filter_empty_conv)

lemma chained_scan_eq:
  "chained_scan name descs h props =
     ((case filter (is_hash_for name) descs of [] \<Rightarrow> h | d # ds \<Rightarrow> Some (last (d # ds))),
      props @ filter is_prop descs)"
proof (induction descs arbitrary: h props)
  case Nil
  then show ?case by simp
next
  case (Cons d descs)
  show ?case
  proof (cases "is_hash_for name d")
    case True
    show ?thesis using True hash_not_prop[OF True] Cons[of "Some d" props]
      by (simp split: list.splits)
  next
    case False
    then show ?thesis using Cons by simp
  qed
qed

lemma hash_scan_no_reuse:
  "hash_scan name False descs salt alg props =
     Inr (salt, alg, props @ map prop_text (filter is_prop descs))"
proof (induction descs arbitrary: props)
  case Nil
  then show ?case by simp
next
  case (Cons d descs)
  show ?case
  proof (cases "is_hash_for name d")
    case True
    show ?thesis using True hash_not_prop[OF True] Cons by simp
  next
    case False
    then show ?thesis using Cons by simp
  qed
qed

lemma hash_scan_no_match:
  "filter (is_hash_for name) descs = [] \<Longrightarrow>
   hash_scan name use descs salt alg props =
     Inr (salt, alg, props @ map prop_text (filter is_prop descs))"
proof (induction descs arbitrary: props)
  case Nil
  then show ?case by simp
next
  case (Cons d descs)
  then show ?case by (cases use) (auto split: if_splits)
qed

lemma hash_scan_reuse:
  "hash_scan name True descs salt0 alg0 props0 = Inr (salt, alg, props) \<Longrightarrow>
   props = props0 @ map prop_text (filter is_prop descs)
   \<and> (case filter (is_hash_for name) descs of
        [] \<Rightarrow> salt = salt0 \<and> alg = alg0
      | m # ms \<Rightarrow>
          (\<exists>z h. dict_get (last (m # ms)) ''salt'' = PyStr z \<and> salt = PyStr z
               \<and> dict_get_default (last (m # ms)) ''hash_algorithm'' (PyStr ''sha256'') = PyStr h
               \<and> alg = (if upper h = ''SHA256'' then ''NONE'' else upper h)))"
proof (induction descs arbitrary: salt0 alg0 props0)
  case Nil
  then show ?case by simp
next
  case (Cons d descs)
  show ?case
  proof (cases "is_hash_for name d")
    case True
    from Cons.prems True obtain h z where
      h: "dict_get_default d ''hash_algorithm'' (PyStr ''sha256'') = PyStr h"
      and z: "dict_get d ''salt'' = PyStr z"
      and rest: "hash_scan name True descs (PyStr z)
                   (if upper h = ''SHA256'' then ''NONE'' else upper h) props0
                 = Inr (salt, alg, props)"
      by (auto split: pyval.splits)
    from Cons.IH[OF rest] show ?thesis using True hash_not_prop[OF True] h z
      by (auto split: list.splits)
  next
    case False
    show ?thesis
    proof (cases "is_prop d")
      case True
      with False Cons.prems
      have "hash_scan name True descs salt0 alg0 (props0 @ [prop_text d]) = Inr (salt, alg, props)"
        by simp
      from Cons.IH[OF this] show ?thesis using False True by simp
    next
      case np: False
      with False Cons.prems
      have "hash_scan name True descs salt0 alg0 props0 = Inr (salt, alg, props)"
        by simp
      from Cons.IH[OF this] show ?thesis using False np by simp
    qed
  qed
qed

text \<open>The regular plan, when it is built: its algorithm, its salt and its properties.\<close>

lemma hash_partition_scan_props:
  assumes "hash_partition_scan name info use = Inr (salt, alg, props)"
  shows "props = map prop_text (filter is_prop (descriptors info))"
proof (cases use)
  case True
  with assms show ?thesis
    using hash_scan_reuse[of name "descriptors info" PyNone "''NONE''" "[]" salt alg props]
    by (auto simp: hash_partition_scan_def split: if_splits)
next
  case False
  with assms show ?thesis
    by (auto simp: hash_partition_scan_def hash_scan_no_reuse split: if_splits)
qed

lemma hash_partition_scan_reuse_match:
  assumes "hash_partition_scan name info True = Inr (salt, alg, props)"
    and "list_ex (is_hash_for name) (descriptors info)"
  shows "\<exists>z h. dict_get (last (filter (is_hash_for name) (descriptors info))) ''salt'' = PyStr z
               \<and> salt = PyStr z
               \<and> dict_get_default (last (filter (is_hash_for name) (descriptors info)))
                     ''hash_algorithm'' (PyStr ''sha256'') = PyStr h
               \<and> alg = (if upper h = ''SHA256'' then ''NONE'' else upper h)"
proof -
  from assms(2) obtain m ms where ms: "filter (is_hash_for name) (descriptors info) = m # ms"
    using list_ex_filter_Cons by blast
  then have ne: "descriptors info \<noteq> []" by auto
  with assms(1) have "hash_scan name True (descriptors info) PyNone ''NONE'' [] = Inr (salt, alg, props)"
    by (simp add: hash_partition_scan_def)
  from hash_scan_reuse[OF this] show ?thesis unfolding ms by simp
qed

lemma chained_scan_match:
  assumes "list_ex (is_hash_for name) descs"
  shows "chained_scan name descs None []
           = (Some (last (filter (is_hash_for name) descs)), filter is_prop descs)"
proof -
  from assms obtain m ms where ms: "filter (is_hash_for name) descs = m # ms"
    using list_ex_filter_Cons by blast
  show ?thesis unfolding chained_scan_eq ms by simp
qed

lemma hash_partition_scan_plain:
  assumes "\<not> use \<or> filter (is_hash_for name) (descriptors info) = []"
  shows "hash_partition_scan name info use
           = Inr (PyNone, ''NONE'', map prop_text (filter is_prop (descriptors info)))"
proof (cases use)
  case True
  with assms have "filter (is_hash_for name) (descriptors info) = []" by simp
  then show ?thesis by (simp add: hash_partition_scan_def hash_scan_no_match)
next
  case False
  then show ?thesis by (simp add: hash_partition_scan_def hash_scan_no_reuse)
qed

text \<open>A salt made of zeros only adds nothing to the chained command; any other does.\<close>

lemma all_zero_replicate:
  "set z \<subseteq> {CHR ''0''} \<Longrightarrow> z = replicate (length z) (CHR ''0'')"
  by (induction z) auto

lemma chained_salt_args_zero:
  "set z \<subseteq> {CHR ''0''} \<Longrightarrow> chained_salt_args (PyStr z) = []"
  using all_zero_replicate[of z] by (simp add: chained_salt_args_def)

lemma chained_salt_args_other:
  "\<not> set z \<subseteq> {CHR ''0''} \<Longrightarrow> chained_salt_args (PyStr z) = [PyStr ''--salt'', PyStr z]"
proof -
  assume nz: "\<not> set z \<subseteq> {CHR ''0''}"
  then have "z \<noteq> []" by auto
  moreover have "z \<noteq> replicate (length z) (CHR ''0'')"
  proof
    assume "z = replicate (length z) (CHR ''0'')"
    then have "set z \<subseteq> set (replicate (length z) (CHR ''0''))" by simp
    with nz show False by auto
  qed
  ultimately show ?thesis by (simp add: chained_salt_args_def)
qed

lemma salt_flag_not_in_prop_args: "PyStr ''--salt'' \<notin> set (chained_prop_args props)"
proof -
  have "\<And>k v. ''--salt'' \<noteq> k @ '':'' @ v"
  proof
    fix k v :: string
    assume "''--salt'' = k @ '':'' @ v"
    then have "CHR '':'' \<in> set ''--salt''" by (metis in_set_conv_decomp append_Cons append_Nil)
    then show False by simp
  qed
  then show ?thesis by (auto simp: chained_prop_args_def)
qed

section \<open>Salt, algorithm and properties of the two plans\<close>

text \<open>
  C1. Salt reuse is on and the Hash descriptor of the partition (the last one of that
  name, which is the one both planners end with) carries a salt of zeros only. Then every
  chained command that is built has, after its fifteen fixed arguments, only the property
  arguments: no \<^verbatim>\<open>--salt\<close> is passed. Every regular command that is built passes
  \<^verbatim>\<open>--salt\<close> with that same salt.
\<close>

theorem zero_salt_omitted_chained_forwarded_regular:
  assumes "list_ex (is_hash_for partition_name) (descriptors info)"
    and "dict_index (last (filter (is_hash_for partition_name) (descriptors info))) ''salt''
           = Inr (PyStr z)"
    and "z \<noteq> []" and "set z \<subseteq> {CHR ''0''}"
  shows "(\<forall>cmd. chained_partition_cmd self partition_name image_path partition_size algorithm
                 rollback_index info True = Inr cmd \<longrightarrow>
            (\<exists>suitable_key.
               cmd = [PyStr (python_executable self), PyStr (avbtool_path self),
                      PyStr ''add_hash_footer'',
                      PyStr ''--image'', PyStr image_path,
                      PyStr ''--partition_name'', PyStr partition_name,
                      PyStr ''--partition_size'', PyStr (str_nat partition_size),
                      PyStr ''--algorithm'', algorithm,
                      PyStr ''--key'', PyStr suitable_key,
                      PyStr ''--rollback_index'', rollback_index]
                     @ chained_prop_args (filter is_prop (descriptors info)))
            \<and> PyStr ''--salt'' \<notin> set (drop 15 cmd))
       \<and> (\<forall>cmd. hash_partition_cmd self partition_name image_path partition_size info True
                 fresh = Inr cmd \<longrightarrow>
            (\<exists>footer_algorithm.
               cmd = [PyStr (python_executable self), PyStr (avbtool_path self),
                      PyStr ''add_hash_footer'',
                      PyStr ''--image'', PyStr image_path,
                      PyStr ''--partition_name'', PyStr partition_name,
                      PyStr ''--partition_size'', PyStr (str_nat partition_size),
                      PyStr ''--algorithm'', PyStr footer_algorithm,
                      PyStr ''--salt'', PyStr z]
                     @ concat (map (\<lambda>d. [PyStr ''--prop'', PyStr (prop_text d)])
                                 (filter is_prop (descriptors info)))))"
proof -
  define hash_desc where
    "hash_desc = last (filter (is_hash_for partition_name) (descriptors info))"
  from assms(2) have idx: "dict_index hash_desc ''salt'' = Inr (PyStr z)"
    by (simp add: hash_desc_def)
  then have get: "dict_get hash_desc ''salt'' = PyStr z"
    by (auto simp: dict_index_def dict_get_def split: option.splits)
  have scan: "chained_scan partition_name (descriptors info) None []
                = (Some hash_desc, filter is_prop (descriptors info))"
    unfolding hash_desc_def by (rule chained_scan_match[OF assms(1)])
  have chained: "\<exists>suitable_key.
               cmd = [PyStr (python_executable self), PyStr (avbtool_path self),
                      PyStr ''add_hash_footer'',
                      PyStr ''--image'', PyStr image_path,
                      PyStr ''--partition_name'', PyStr partition_name,
                      PyStr ''--partition_size'', PyStr (str_nat partition_size),
                      PyStr ''--algorithm'', algorithm,
                      PyStr ''--key'', PyStr suitable_key,
                      PyStr ''--rollback_index'', rollback_index]
                     @ chained_prop_args (filter is_prop (descriptors info))"
    if "chained_partition_cmd self partition_name image_path partition_size algorithm
          rollback_index info True = Inr cmd" for cmd
    using that idx chained_salt_args_zero[OF assms(4)]
    by (auto simp: chained_partition_cmd_def scan chained_salt_def split: sum.splits)
  have regular: "\<exists>footer_algorithm.
               cmd = [PyStr (python_executable self), PyStr (avbtool_path self),
                      PyStr ''add_hash_footer'',
                      PyStr ''--image'', PyStr image_path,
                      PyStr ''--partition_name'', PyStr partition_name,
                      PyStr ''--partition_size'', PyStr (str_nat partition_size),
                      PyStr ''--algorithm'', PyStr footer_algorithm,
                      PyStr ''--salt'', PyStr z]
                     @ concat (map (\<lambda>d. [PyStr ''--prop'', PyStr (prop_text d)])
                                 (filter is_prop (descriptors info)))"
    if built: "hash_partition_cmd self partition_name image_path partition_size info True
                 fresh = Inr cmd" for cmd
  proof -
    from built obtain salt alg props where
      scan: "hash_partition_scan partition_name info True = Inr (salt, alg, props)"
      and cmd: "cmd = hash_footer_cmd self partition_name image_path partition_size alg
                        (if truthy salt then format_val salt else fresh) props"
      by (auto simp: hash_partition_cmd_def split: sum.splits)
    from hash_partition_scan_reuse_match[OF scan assms(1)] get
    have salt: "salt = PyStr z" by (auto simp: hash_desc_def)
    from hash_partition_scan_props[OF scan]
    have props: "props = map prop_text (filter is_prop (descriptors info))" .
    from cmd salt props assms(3) show ?thesis
      by (simp add: hash_footer_cmd_def comp_def)
  qed
  have no_salt: "PyStr ''--salt'' \<notin> set (drop 15 cmd)"
    if built: "chained_partition_cmd self partition_name image_path partition_size algorithm
                 rollback_index info True = Inr cmd" for cmd
  proof -
    from chained[OF built] obtain suitable_key where
      "cmd = [PyStr (python_executable self), PyStr (avbtool_path self),
              PyStr ''add_hash_footer'',
              PyStr ''--image'', PyStr image_path,
              PyStr ''--partition_name'', PyStr partition_name,
              PyStr ''--partition_size'', PyStr (str_nat partition_size),
              PyStr ''--algorithm'', algorithm,
              PyStr ''--key'', PyStr suitable_key,
              PyStr ''--rollback_index'', rollback_index]
             @ chained_prop_args (filter is_prop (descriptors info))"
      by blast
    then have "drop 15 cmd = chained_prop_args (filter is_prop (descriptors info))"
      by simp
    then show ?thesis by (simp add: salt_flag_not_in_prop_args)
  qed
  show ?thesis
  proof (intro conjI allI impI)
    fix cmd
    assume "chained_partition_cmd self partition_name image_path partition_size algorithm
              rollback_index info True = Inr cmd"
    then show "\<exists>suitable_key.
               cmd = [PyStr (python_executable self), PyStr (avbtool_path self),
                      PyStr ''add_hash_footer'',
                      PyStr ''--image'', PyStr image_path,
                      PyStr ''--partition_name'', PyStr partition_name,
                      PyStr ''--partition_size'', PyStr (str_nat partition_size),
                      PyStr ''--algorithm'', algorithm,
                      PyStr ''--key'', PyStr suitable_key,
                      PyStr ''--rollback_index'', rollback_index]
                     @ chained_prop_args (filter is_prop (descriptors info))"
      by (rule chained)
  next
    fix cmd
    assume "chained_partition_cmd self partition_name image_path partition_size algorithm
              rollback_index info True = Inr cmd"
    then show "PyStr ''--salt'' \<notin> set (drop 15 cmd)" by (rule no_salt)
  next
    fix cmd
    assume "hash_partition_cmd self partition_name image_path partition_size info True
              fresh = Inr cmd"
    then show "\<exists>footer_algorithm.
               cmd = [PyStr (python_executable self), PyStr (avbtool_path self),
                      PyStr ''add_hash_footer'',
                      PyStr ''--image'', PyStr image_path,
                      PyStr ''--partition_name'', PyStr partition_name,
                      PyStr ''--partition_size'', PyStr (str_nat partition_size),
                      PyStr ''--algorithm'', PyStr footer_algorithm,
                      PyStr ''--salt'', PyStr z]
                     @ concat (map (\<lambda>d. [PyStr ''--prop'', PyStr (prop_text d)])
                                 (filter is_prop (descriptors info)))"
      by (rule regular)
  qed
qed

theorem zero_salt_witness:
  "PyStr ''--salt'' \<notin> set (drop 15
      [PyStr ''python3'', PyStr ''tools/avbtool.py'', PyStr ''add_hash_footer'',
       PyStr ''--image'', PyStr ''boot.img'', PyStr ''--partition_name'', PyStr ''boot'',
       PyStr ''--partition_size'', PyStr ''4096'', PyStr ''--algorithm'',
       PyStr ''SHA256_RSA2048'', PyStr ''--key'', PyStr ''/w/tools/pem/testkey_rsa2048.pem'',
       PyStr ''--rollback_index'', PyStr ''0'', PyStr ''--prop'', PyStr ''os_version:13''])
   \<and> chained_partition_cmd example_rebuilder ''boot'' ''boot.img'' 4096
         (PyStr ''SHA256_RSA2048'') (PyStr ''0'')
         (example_info (PyStr ''NONE'') (PyStr ''0'')
            [example_hash_desc ''boot'' (PyStr ''sha256'') (PyStr ''0000''),
             example_prop_desc (Some (''os_version'', ''13''))])
         True
       = Inr [PyStr ''python3'', PyStr ''tools/avbtool.py'', PyStr ''add_hash_footer'',
              PyStr ''--image'', PyStr ''boot.img'', PyStr ''--partition_name'', PyStr ''boot'',
              PyStr ''--partition_size'', PyStr ''4096'', PyStr ''--algorithm'',
              PyStr ''SHA256_RSA2048'', PyStr ''--key'',
              PyStr ''/w/tools/pem/testkey_rsa2048.pem'',
              PyStr ''--rollback_index'', PyStr ''0'', PyStr ''--prop'', PyStr ''os_version:13'']
   \<and> hash_partition_cmd example_rebuilder ''boot'' ''boot.img'' 4096
         (example_info (PyStr ''NONE'') (PyStr ''0'')
            [example_hash_desc ''boot'' (PyStr ''sha256'') (PyStr ''0000''),
             example_prop_desc (Some (''os_version'', ''13''))])
         True ''5e''
       = Inr [PyStr ''python3'', PyStr ''tools/avbtool.py'', PyStr ''add_hash_footer'',
              PyStr ''--image'', PyStr ''boot.img'', PyStr ''--partition_name'', PyStr ''boot'',
              PyStr ''--partition_size'', PyStr ''4096'', PyStr ''--algorithm'', PyStr ''NONE'',
              PyStr ''--salt'', PyStr ''0000'', PyStr ''--prop'', PyStr ''os_version:13'']"
proof -
  let ?info = "example_info (PyStr ''NONE'') (PyStr ''0'')
            [example_hash_desc ''boot'' (PyStr ''sha256'') (PyStr ''0000''),
             example_prop_desc (Some (''os_version'', ''13''))]"
  have h1: "list_ex (is_hash_for ''boot'') (descriptors ?info)" by code_simp
  have h2: "dict_index (last (filter (is_hash_for ''boot'') (descriptors ?info))) ''salt''
              = Inr (PyStr ''0000'')" by code_simp
  have h3: "''0000'' \<noteq> []" by simp
  have h4: "set ''0000'' \<subseteq> {CHR ''0''}" by simp
  have c: "chained_partition_cmd example_rebuilder ''boot'' ''boot.img'' 4096
             (PyStr ''SHA256_RSA2048'') (PyStr ''0'') ?info True
           = Inr [PyStr ''python3'', PyStr ''tools/avbtool.py'', PyStr ''add_hash_footer'',
              PyStr ''--image'', PyStr ''boot.img'', PyStr ''--partition_name'', PyStr ''boot'',
              PyStr ''--partition_size'', PyStr ''4096'', PyStr ''--algorithm'',
              PyStr ''SHA256_RSA2048'', PyStr ''--key'',
              PyStr ''/w/tools/pem/testkey_rsa2048.pem'',
              PyStr ''--rollback_index'', PyStr ''0'', PyStr ''--prop'', PyStr ''os_version:13'']"
    by code_simp
  have r: "hash_partition_cmd example_rebuilder ''boot'' ''boot.img'' 4096 ?info True ''5e''
           = Inr [PyStr ''python3'', PyStr ''tools/avbtool.py'', PyStr ''add_hash_footer'',
              PyStr ''--image'', PyStr ''boot.img'', PyStr ''--partition_name'', PyStr ''boot'',
              PyStr ''--partition_size'', PyStr ''4096'', PyStr ''--algorithm'', PyStr ''NONE'',
              PyStr ''--salt'', PyStr ''0000'', PyStr ''--prop'', PyStr ''os_version:13'']"
    by code_simp
  from zero_salt_omitted_chained_forwarded_regular[OF h1 h2 h3 h4,
         of example_rebuilder "''boot.img''" 4096 "PyStr ''SHA256_RSA2048''" "PyStr ''0''"
            "''5e''"] c
  have "PyStr ''--salt'' \<notin> set (drop 15
      [PyStr ''python3'', PyStr ''tools/avbtool.py'', PyStr ''add_hash_footer'',
       PyStr ''--image'', PyStr ''boot.img'', PyStr ''--partition_name'', PyStr ''boot'',
       PyStr ''--partition_size'', PyStr ''4096'', PyStr ''--algorithm'',
       PyStr ''SHA256_RSA2048'', PyStr ''--key'', PyStr ''/w/tools/pem/testkey_rsa2048.pem'',
       PyStr ''--rollback_index'', PyStr ''0'', PyStr ''--prop'', PyStr ''os_version:13''])"
    by blast
  with c r show ?thesis by blast
qed

text \<open>
  The companion case of the spec's example: a salt that is not all zeros
  (\<^verbatim>\<open>deadbeef\<close>) is passed by the chained command.
\<close>

lemma chained_salt_args_deadbeef:
  "chained_salt_args (PyStr ''deadbeef'') = [PyStr ''--salt'', PyStr ''deadbeef'']"
  by (simp add: chained_salt_args_def)

text \<open>
  C9. When the salt is regenerated, or no Hash descriptor of the partition is in the
  image, the regular command is built, its algorithm is \<^verbatim>\<open>NONE\<close> and its salt is the fresh
  one, whatever hash algorithms the descriptors record: the hash algorithm is looked at
  only under salt reuse, and only in a Hash descriptor of the partition.
\<close>

theorem regular_algorithm_none_without_salt_reuse:
  assumes "\<not> use_original_salt \<or> \<not> list_ex (is_hash_for partition_name) (descriptors info)"
  shows "hash_partition_cmd self partition_name image_path partition_size info
           use_original_salt fresh
         = Inr ([PyStr (python_executable self), PyStr (avbtool_path self),
                 PyStr ''add_hash_footer'',
                 PyStr ''--image'', PyStr image_path,
                 PyStr ''--partition_name'', PyStr partition_name,
                 PyStr ''--partition_size'', PyStr (str_nat partition_size),
                 PyStr ''--algorithm'', PyStr ''NONE'',
                 PyStr ''--salt'', PyStr fresh]
                @ concat (map (\<lambda>d. [PyStr ''--prop'', PyStr (prop_text d)])
                            (filter is_prop (descriptors info))))"
proof -
  from assms
  have "\<not> use_original_salt \<or> filter (is_hash_for partition_name) (descriptors info) = []"
    by (auto simp: list_ex_iff filter_empty_conv)
  from hash_partition_scan_plain[OF this] show ?thesis
    by (simp add: hash_partition_cmd_def hash_footer_cmd_def comp_def)
qed

theorem regular_algorithm_none_witness:
  "hash_partition_cmd example_rebuilder ''boot'' ''boot.img'' 4096
     (example_info (PyStr ''NONE'') (PyStr ''0'')
        [example_hash_desc ''boot'' (PyStr ''sha512'') (PyStr ''1f2e'')])
     False ''5e''
   = Inr [PyStr ''python3'', PyStr ''tools/avbtool.py'', PyStr ''add_hash_footer'',
          PyStr ''--image'', PyStr ''boot.img'', PyStr ''--partition_name'', PyStr ''boot'',
          PyStr ''--partition_size'', PyStr ''4096'', PyStr ''--algorithm'', PyStr ''NONE'',
          PyStr ''--salt'', PyStr ''5e'']"
proof -
  let ?info = "example_info (PyStr ''NONE'') (PyStr ''0'')
        [example_hash_desc ''boot'' (PyStr ''sha512'') (PyStr ''1f2e'')]"
  have h: "\<not> False \<or> \<not> list_ex (is_hash_for ''boot'') (descriptors ?info)" by simp
  have p: "filter is_prop (descriptors ?info) = []"
    by (simp add: filter_empty_conv) code_simp
  have n: "str_nat 4096 = ''4096''" by code_simp
  from regular_algorithm_none_without_salt_reuse[OF h, of example_rebuilder "''boot.img''"
         4096 "''5e''"]
  show ?thesis by (simp add: p n example_rebuilder_def)
qed

text \<open>
  C6, as amended. The algorithm of every regular command that is built is \<^verbatim>\<open>NONE\<close> when the
  salt is regenerated, when the image has no Hash descriptor of the partition, and when
  the hash algorithm of that descriptor (the last of that name) reads \<^verbatim>\<open>SHA256\<close> in upper
  case; in every other case it is that hash algorithm in upper case.
\<close>

theorem regular_footer_algorithm:
  assumes "hash_partition_cmd self partition_name image_path partition_size info
             use_original_salt fresh = Inr cmd"
  shows "take 11 cmd
         = [PyStr (python_executable self), PyStr (avbtool_path self),
            PyStr ''add_hash_footer'',
            PyStr ''--image'', PyStr image_path,
            PyStr ''--partition_name'', PyStr partition_name,
            PyStr ''--partition_size'', PyStr (str_nat partition_size),
            PyStr ''--algorithm'',
            PyStr (if use_original_salt
                      \<and> list_ex (is_hash_for partition_name) (descriptors info)
                   then (if upper (format_val (dict_get_default
                                       (last (filter (is_hash_for partition_name)
                                                (descriptors info)))
                                       ''hash_algorithm'' (PyStr ''sha256''))) = ''SHA256''
                         then ''NONE''
                         else upper (format_val (dict_get_default
                                       (last (filter (is_hash_for partition_name)
                                                (descriptors info)))
                                       ''hash_algorithm'' (PyStr ''sha256''))))
                   else ''NONE'')]"
proof (cases "use_original_salt \<and> list_ex (is_hash_for partition_name) (descriptors info)")
  case True
  from assms True obtain salt alg props where
    scan: "hash_partition_scan partition_name info True = Inr (salt, alg, props)"
    and cmd: "cmd = hash_footer_cmd self partition_name image_path partition_size alg
                      (if truthy salt then format_val salt else fresh) props"
    by (auto simp: hash_partition_cmd_def split: sum.splits)
  from hash_partition_scan_reuse_match[OF scan] True obtain h where
    "dict_get_default (last (filter (is_hash_for partition_name) (descriptors info)))
       ''hash_algorithm'' (PyStr ''sha256'') = PyStr h"
    and "alg = (if upper h = ''SHA256'' then ''NONE'' else upper h)"
    by blast
  with cmd True show ?thesis by (simp add: hash_footer_cmd_def)
next
  case False
  then have "\<not> use_original_salt
             \<or> \<not> list_ex (is_hash_for partition_name) (descriptors info)" by simp
  then have "\<not> use_original_salt
             \<or> filter (is_hash_for partition_name) (descriptors info) = []"
    by (auto simp: list_ex_iff filter_empty_conv)
  from hash_partition_scan_plain[OF this] assms False show ?thesis
    by (auto simp: hash_partition_cmd_def hash_footer_cmd_def)
qed

theorem regular_footer_algorithm_witness:
  "take 11 [PyStr ''python3'', PyStr ''tools/avbtool.py'', PyStr ''add_hash_footer'',
            PyStr ''--image'', PyStr ''boot.img'', PyStr ''--partition_name'', PyStr ''boot'',
            PyStr ''--partition_size'', PyStr ''4096'', PyStr ''--algorithm'', PyStr ''NONE'',
            PyStr ''--salt'', PyStr ''1f2e'']
   = [PyStr ''python3'', PyStr ''tools/avbtool.py'', PyStr ''add_hash_footer'',
      PyStr ''--image'', PyStr ''boot.img'', PyStr ''--partition_name'', PyStr ''boot'',
      PyStr ''--partition_size'', PyStr ''4096'', PyStr ''--algorithm'', PyStr ''NONE'']
   \<and> hash_partition_cmd example_rebuilder ''boot'' ''boot.img'' 4096
         (example_info (PyStr ''NONE'') (PyStr ''0'')
            [example_hash_desc ''boot'' (PyStr ''sha256'') (PyStr ''1f2e'')])
         True ''5e''
       = Inr [PyStr ''python3'', PyStr ''tools/avbtool.py'', PyStr ''add_hash_footer'',
              PyStr ''--image'', PyStr ''boot.img'', PyStr ''--partition_name'', PyStr ''boot'',
              PyStr ''--partition_size'', PyStr ''4096'', PyStr ''--algorithm'', PyStr ''NONE'',
              PyStr ''--salt'', PyStr ''1f2e'']"
proof -
  let ?info = "example_info (PyStr ''NONE'') (PyStr ''0'')
                 [example_hash_desc ''boot'' (PyStr ''sha256'') (PyStr ''1f2e'')]"
  have built: "hash_partition_cmd example_rebuilder ''boot'' ''boot.img'' 4096 ?info True ''5e''
       = Inr [PyStr ''python3'', PyStr ''tools/avbtool.py'', PyStr ''add_hash_footer'',
              PyStr ''--image'', PyStr ''boot.img'', PyStr ''--partition_name'', PyStr ''boot'',
              PyStr ''--partition_size'', PyStr ''4096'', PyStr ''--algorithm'', PyStr ''NONE'',
              PyStr ''--salt'', PyStr ''1f2e'']"
    by code_simp
  have rhs: "[PyStr (python_executable example_rebuilder), PyStr (avbtool_path example_rebuilder),
            PyStr ''add_hash_footer'',
            PyStr ''--image'', PyStr ''boot.img'',
            PyStr ''--partition_name'', PyStr ''boot'',
            PyStr ''--partition_size'', PyStr (str_nat 4096),
            PyStr ''--algorithm'',
            PyStr (if True \<and> list_ex (is_hash_for ''boot'') (descriptors ?info)
                   then (if upper (format_val (dict_get_default
                                       (last (filter (is_hash_for ''boot'') (descriptors ?info)))
                                       ''hash_algorithm'' (PyStr ''sha256''))) = ''SHA256''
                         then ''NONE''
                         else upper (format_val (dict_get_default
                                       (last (filter (is_hash_for ''boot'') (descriptors ?info)))
                                       ''hash_algorithm'' (PyStr ''sha256''))))
                   else ''NONE'')]
      = [PyStr ''python3'', PyStr ''tools/avbtool.py'', PyStr ''add_hash_footer'',
      PyStr ''--image'', PyStr ''boot.img'', PyStr ''--partition_name'', PyStr ''boot'',
      PyStr ''--partition_size'', PyStr ''4096'', PyStr ''--algorithm'', PyStr ''NONE'']"
    by code_simp
  from regular_footer_algorithm[OF built] rhs built show ?thesis by simp
qed

text \<open>
  C6 as stated fails: with salt reuse on and a Hash descriptor of the partition whose hash
  algorithm is \<^verbatim>\<open>sha512\<close>, the regular command passes \<^verbatim>\<open>--algorithm SHA512\<close>.
\<close>

theorem regular_footer_algorithm_sha512_counterexample:
  "hash_partition_cmd example_rebuilder ''boot'' ''boot.img'' 4096
     (example_info (PyStr ''NONE'') (PyStr ''0'')
        [example_hash_desc ''boot'' (PyStr ''sha512'') (PyStr ''1f2e'')])
     True ''5e''
   = Inr [PyStr ''python3'', PyStr ''tools/avbtool.py'', PyStr ''add_hash_footer'',
          PyStr ''--image'', PyStr ''boot.img'', PyStr ''--partition_name'', PyStr ''boot'',
          PyStr ''--partition_size'', PyStr ''4096'', PyStr ''--algorithm'', PyStr ''SHA512'',
          PyStr ''--salt'', PyStr ''1f2e'']"
  by code_simp

section \<open>Property descriptors in the two plans\<close>

text \<open>
  A Prop descriptor of the parser has no entry holding \<^verbatim>\<open>None\<close>: its key and value are
  texts, or missing.
\<close>

lemma parse_prop_descriptor_entries: "parse_prop_descriptor content k \<noteq> Some PyNone"
  by (auto simp: parse_prop_descriptor_def split: option.splits list.splits)

lemma parse_block_prop_entries:
  assumes "d \<in> set (parse_block desc_type desc_content)" and "is_prop d"
  shows "d ''key'' \<noteq> Some PyNone \<and> d ''value'' \<noteq> Some PyNone"
proof -
  from assms have "d = (parse_prop_descriptor desc_content)(''type'' \<mapsto> PyStr ''prop'')"
    by (auto simp: parse_block_def is_prop_def dict_get_def split: if_splits)
  then show ?thesis by (simp add: parse_prop_descriptor_entries)
qed

lemma descriptor_loop_prop_entries:
  "d \<in> set (descriptor_loop blocks) \<Longrightarrow> is_prop d
   \<Longrightarrow> d ''key'' \<noteq> Some PyNone \<and> d ''value'' \<noteq> Some PyNone"
proof (induction blocks rule: descriptor_loop.induct)
  case 1
  then show ?case by simp
next
  case (2 t)
  then show ?case using parse_block_prop_entries by simp
next
  case (3 t content rest)
  then show ?case using parse_block_prop_entries by auto
qed

lemma parsed_props_have_texts:
  "\<forall>d \<in> set (descriptors (parse_report output)).
     is_prop d \<longrightarrow> d ''key'' \<noteq> Some PyNone \<and> d ''value'' \<noteq> Some PyNone"
  using descriptor_loop_prop_entries
  by (auto simp: parse_report_def parse_descriptors_def)

lemma prop_text_texts:
  assumes "d ''key'' \<noteq> Some PyNone" and "d ''value'' \<noteq> Some PyNone"
  shows "prop_text d = text_or_empty (d ''key'') @ '':'' @ text_or_empty (d ''value'')"
    and "truthy (dict_get d ''key'') = (text_or_empty (d ''key'') \<noteq> [])"
    and "truthy (dict_get d ''value'') = (text_or_empty (d ''value'') \<noteq> [])"
    and "truthy (dict_get d ''key'')
         \<Longrightarrow> format_val (dict_get d ''key'') = text_or_empty (d ''key'')"
    and "truthy (dict_get d ''value'')
         \<Longrightarrow> format_val (dict_get d ''value'') = text_or_empty (d ''value'')"
  using assms
  by (auto simp: prop_text_def text_or_empty_def dict_get_default_def dict_get_def
           split: option.splits pyval.splits)

lemma chained_prop_args_texts:
  assumes "\<forall>d \<in> set props. d ''key'' \<noteq> Some PyNone \<and> d ''value'' \<noteq> Some PyNone"
  shows "chained_prop_args props
         = concat (map (\<lambda>d. [PyStr ''--prop'',
                              PyStr (text_or_empty (d ''key'') @ '':''
                                     @ text_or_empty (d ''value''))])
                     (filter (\<lambda>d. text_or_empty (d ''key'') \<noteq> []
                                   \<and> text_or_empty (d ''value'') \<noteq> []) props))"
  using assms
proof (induction props)
  case Nil
  then show ?case by (simp add: chained_prop_args_def)
next
  case (Cons d props)
  then have d: "d ''key'' \<noteq> Some PyNone" "d ''value'' \<noteq> Some PyNone" by simp_all
  from Cons have "chained_prop_args props
         = concat (map (\<lambda>d. [PyStr ''--prop'',
                              PyStr (text_or_empty (d ''key'') @ '':''
                                     @ text_or_empty (d ''value''))])
                     (filter (\<lambda>d. text_or_empty (d ''key'') \<noteq> []
                                   \<and> text_or_empty (d ''value'') \<noteq> []) props))"
    by simp
  moreover have "chained_prop_args (d # props)
         = (if truthy (dict_get d ''key'') \<and> truthy (dict_get d ''value'')
            then [PyStr ''--prop'',
                  PyStr (format_val (dict_get d ''key'') @ '':''
                         @ format_val (dict_get d ''value''))]
            else []) @ chained_prop_args props"
    by (simp add: chained_prop_args_def)
  ultimately show ?case using prop_text_texts(2-5)[OF d] by auto
qed

lemma regular_prop_args_texts:
  assumes "\<forall>d \<in> set props. d ''key'' \<noteq> Some PyNone \<and> d ''value'' \<noteq> Some PyNone"
  shows "map prop_text props
         = map (\<lambda>d. text_or_empty (d ''key'') @ '':'' @ text_or_empty (d ''value'')) props"
  using assms prop_text_texts(1) by (auto simp del: append_Cons)

text \<open>
  C10. The Prop descriptors hold texts or lack entries, as the parser builds them. After
  its fifteen fixed arguments and the salt arguments, if any, a chained command has one
  \<^verbatim>\<open>--prop key:value\<close> for each Prop descriptor whose key and value are both present and
  not empty, and none for the others. After its thirteen fixed arguments a regular command
  has one \<^verbatim>\<open>--prop key:value\<close> for every Prop descriptor, an absent key or value written
  as the empty text.
\<close>

theorem prop_forwarding_asymmetry:
  assumes "\<forall>d \<in> set (descriptors info).
             is_prop d \<longrightarrow> d ''key'' \<noteq> Some PyNone \<and> d ''value'' \<noteq> Some PyNone"
  shows "(\<forall>cmd. chained_partition_cmd self partition_name image_path partition_size algorithm
                 rollback_index info use_original_salt = Inr cmd \<longrightarrow>
            (\<exists>salt_args.
               (salt_args = [] \<or> (\<exists>z. salt_args = [PyStr ''--salt'', PyStr z]))
               \<and> drop 15 cmd
                   = salt_args
                     @ concat (map (\<lambda>d. [PyStr ''--prop'',
                                          PyStr (text_or_empty (d ''key'') @ '':''
                                                 @ text_or_empty (d ''value''))])
                                 (filter (\<lambda>d. is_prop d
                                               \<and> text_or_empty (d ''key'') \<noteq> []
                                               \<and> text_or_empty (d ''value'') \<noteq> [])
                                    (descriptors info)))))
       \<and> (\<forall>cmd. hash_partition_cmd self partition_name image_path partition_size info
                 use_original_salt fresh = Inr cmd \<longrightarrow>
            drop 13 cmd
              = concat (map (\<lambda>d. [PyStr ''--prop'',
                                   PyStr (text_or_empty (d ''key'') @ '':''
                                          @ text_or_empty (d ''value''))])
                          (filter is_prop (descriptors info))))"
proof (intro conjI allI impI)
  fix cmd
  assume built: "chained_partition_cmd self partition_name image_path partition_size
                   algorithm rollback_index info use_original_salt = Inr cmd"
  from assms have wf: "\<forall>d \<in> set (filter is_prop (descriptors info)).
                          d ''key'' \<noteq> Some PyNone \<and> d ''value'' \<noteq> Some PyNone" by simp
  from built obtain salt where
    drop: "drop 15 cmd = chained_salt_args salt
                          @ chained_prop_args (filter is_prop (descriptors info))"
    by (auto simp: chained_partition_cmd_def chained_scan_eq split: sum.splits)
  have salt: "chained_salt_args salt = []
              \<or> (\<exists>z. chained_salt_args salt = [PyStr ''--salt'', PyStr z])"
    by (cases salt) (auto simp: chained_salt_args_def)
  have both: "filter (\<lambda>d. text_or_empty (d ''key'') \<noteq> [] \<and> text_or_empty (d ''value'') \<noteq> [])
                (filter is_prop (descriptors info))
              = filter (\<lambda>d. is_prop d \<and> text_or_empty (d ''key'') \<noteq> []
                             \<and> text_or_empty (d ''value'') \<noteq> []) (descriptors info)"
    by (simp add: conj_commute conj_left_commute)
  from drop salt show "\<exists>salt_args.
               (salt_args = [] \<or> (\<exists>z. salt_args = [PyStr ''--salt'', PyStr z]))
               \<and> drop 15 cmd
                   = salt_args
                     @ concat (map (\<lambda>d. [PyStr ''--prop'',
                                          PyStr (text_or_empty (d ''key'') @ '':''
                                                 @ text_or_empty (d ''value''))])
                                 (filter (\<lambda>d. is_prop d
                                               \<and> text_or_empty (d ''key'') \<noteq> []
                                               \<and> text_or_empty (d ''value'') \<noteq> [])
                                    (descriptors info)))"
    unfolding chained_prop_args_texts[OF wf] both by blast
next
  fix cmd
  assume built: "hash_partition_cmd self partition_name image_path partition_size info
                   use_original_salt fresh = Inr cmd"
  from assms have wf: "\<forall>d \<in> set (filter is_prop (descriptors info)).
                          d ''key'' \<noteq> Some PyNone \<and> d ''value'' \<noteq> Some PyNone" by simp
  from built obtain salt alg props where
    scan: "hash_partition_scan partition_name info use_original_salt = Inr (salt, alg, props)"
    and cmd: "cmd = hash_footer_cmd self partition_name image_path partition_size alg
                      (if truthy salt then format_val salt else fresh) props"
    by (auto simp: hash_partition_cmd_def split: sum.splits)
  from hash_partition_scan_props[OF scan] regular_prop_args_texts[OF wf]
  have "props = map (\<lambda>d. text_or_empty (d ''key'') @ '':'' @ text_or_empty (d ''value''))
                  (filter is_prop (descriptors info))" by simp
  with cmd show "drop 13 cmd
              = concat (map (\<lambda>d. [PyStr ''--prop'',
                                   PyStr (text_or_empty (d ''key'') @ '':''
                                          @ text_or_empty (d ''value''))])
                          (filter is_prop (descriptors info)))"
    by (simp add: hash_footer_cmd_def comp_def)
qed

theorem prop_forwarding_witness:
  "chained_partition_cmd example_rebuilder ''boot'' ''boot.img'' 4096
     (PyStr ''SHA256_RSA4096'') (PyStr ''0'')
     (example_info (PyStr ''SHA256_RSA4096'') (PyStr ''0'')
        [example_prop_desc (Some (''a'', ''x'')), example_prop_desc (Some (''b'', [])),
         example_prop_desc None])
     True
   = Inr [PyStr ''python3'', PyStr ''tools/avbtool.py'', PyStr ''add_hash_footer'',
          PyStr ''--image'', PyStr ''boot.img'', PyStr ''--partition_name'', PyStr ''boot'',
          PyStr ''--partition_size'', PyStr ''4096'', PyStr ''--algorithm'',
          PyStr ''SHA256_RSA4096'', PyStr ''--key'', PyStr ''/w/tools/pem/testkey_rsa4096.pem'',
          PyStr ''--rollback_index'', PyStr ''0'', PyStr ''--prop'', PyStr ''a:x'']
   \<and> drop 13 [PyStr ''python3'', PyStr ''tools/avbtool.py'', PyStr ''add_hash_footer'',
          PyStr ''--image'', PyStr ''boot.img'', PyStr ''--partition_name'', PyStr ''boot'',
          PyStr ''--partition_size'', PyStr ''4096'', PyStr ''--algorithm'', PyStr ''NONE'',
          PyStr ''--salt'', PyStr ''5e'', PyStr ''--prop'', PyStr ''a:x'',
          PyStr ''--prop'', PyStr ''b:'', PyStr ''--prop'', PyStr '':'']
     = [PyStr ''--prop'', PyStr ''a:x'', PyStr ''--prop'', PyStr ''b:'',
        PyStr ''--prop'', PyStr '':'']
   \<and> hash_partition_cmd example_rebuilder ''boot'' ''boot.img'' 4096
       (example_info (PyStr ''SHA256_RSA4096'') (PyStr ''0'')
          [example_prop_desc (Some (''a'', ''x'')), example_prop_desc (Some (''b'', [])),
           example_prop_desc None])
       True ''5e''
     = Inr [PyStr ''python3'', PyStr ''tools/avbtool.py'', PyStr ''add_hash_footer'',
            PyStr ''--image'', PyStr ''boot.img'', PyStr ''--partition_name'', PyStr ''boot'',
            PyStr ''--partition_size'', PyStr ''4096'', PyStr ''--algorithm'', PyStr ''NONE'',
            PyStr ''--salt'', PyStr ''5e'', PyStr ''--prop'', PyStr ''a:x'',
            PyStr ''--prop'', PyStr ''b:'', PyStr ''--prop'', PyStr '':'']"
proof -
  let ?info = "example_info (PyStr ''SHA256_RSA4096'') (PyStr ''0'')
        [example_prop_desc (Some (''a'', ''x'')), example_prop_desc (Some (''b'', [])),
         example_prop_desc None]"
  have h: "\<forall>d \<in> set (descriptors ?info).
             is_prop d \<longrightarrow> d ''key'' \<noteq> Some PyNone \<and> d ''value'' \<noteq> Some PyNone"
    by (simp add: example_info_def example_prop_desc_def)
  have c: "chained_partition_cmd example_rebuilder ''boot'' ''boot.img'' 4096
     (PyStr ''SHA256_RSA4096'') (PyStr ''0'') ?info True
   = Inr [PyStr ''python3'', PyStr ''tools/avbtool.py'', PyStr ''add_hash_footer'',
          PyStr ''--image'', PyStr ''boot.img'', PyStr ''--partition_name'', PyStr ''boot'',
          PyStr ''--partition_size'', PyStr ''4096'', PyStr ''--algorithm'',
          PyStr ''SHA256_RSA4096'', PyStr ''--key'', PyStr ''/w/tools/pem/testkey_rsa4096.pem'',
          PyStr ''--rollback_index'', PyStr ''0'', PyStr ''--prop'', PyStr ''a:x'']"
    by code_simp
  have r: "hash_partition_cmd example_rebuilder ''boot'' ''boot.img'' 4096 ?info True ''5e''
     = Inr [PyStr ''python3'', PyStr ''tools/avbtool.py'', PyStr ''add_hash_footer'',
            PyStr ''--image'', PyStr ''boot.img'', PyStr ''--partition_name'', PyStr ''boot'',
            PyStr ''--partition_size'', PyStr ''4096'', PyStr ''--algorithm'', PyStr ''NONE'',
            PyStr ''--salt'', PyStr ''5e'', PyStr ''--prop'', PyStr ''a:x'',
            PyStr ''--prop'', PyStr ''b:'', PyStr ''--prop'', PyStr '':'']"
    by code_simp
  have texts: "concat (map (\<lambda>d. [PyStr ''--prop'',
                                   PyStr (text_or_empty (d ''key'') @ '':''
                                          @ text_or_empty (d ''value''))])
                          (filter is_prop (descriptors ?info)))
               = [PyStr ''--prop'', PyStr ''a:x'', PyStr ''--prop'', PyStr ''b:'',
                  PyStr ''--prop'', PyStr '':'']"
    by code_simp
  from prop_forwarding_asymmetry[OF h, of example_rebuilder "''boot''" "''boot.img''" 4096
         "PyStr ''SHA256_RSA4096''" "PyStr ''0''" True "''5e''"] r
  have "drop 13 [PyStr ''python3'', PyStr ''tools/avbtool.py'', PyStr ''add_hash_footer'',
          PyStr ''--image'', PyStr ''boot.img'', PyStr ''--partition_name'', PyStr ''boot'',
          PyStr ''--partition_size'', PyStr ''4096'', PyStr ''--algorithm'', PyStr ''NONE'',
          PyStr ''--salt'', PyStr ''5e'', PyStr ''--prop'', PyStr ''a:x'',
          PyStr ''--prop'', PyStr ''b:'', PyStr ''--prop'', PyStr '':'']
        = concat (map (\<lambda>d. [PyStr ''--prop'',
                                   PyStr (text_or_empty (d ''key'') @ '':''
                                          @ text_or_empty (d ''value''))])
                          (filter is_prop (descriptors ?info)))"
    by blast
  with texts c r show ?thesis by presburger
qed

section \<open>Absent fields that end the run\<close>

text \<open>
  The parser reads the two example reports as the image dictionaries used below: a
  regular \<^verbatim>\<open>boot\<close> whose Hash descriptor has no salt line, and a chained \<^verbatim>\<open>init_boot\<close>
  without a rollback index line.
\<close>

lemma parsed_boot_without_salt:
  "map (\<lambda>d. map (dict_get d) [''type'', ''partition_name'', ''hash_algorithm'', ''salt''])
     (descriptors (parse_report (report_lines
        [''Image size: 4096 bytes'', ''Algorithm: NONE'', ''    Hash descriptor:'',
         ''      Hash Algorithm: sha256'', ''      Partition Name: boot'',
         ''      Digest: 12ab''])))
   = [[PyStr ''hash'', PyStr ''boot'', PyStr ''sha256'', PyNone]]"
  by code_simp

lemma parsed_init_boot_without_rollback_index:
  "map (scalars (parse_report (report_lines
          [''Image size: 8192 bytes'', ''Algorithm: SHA256_RSA2048''])))
     [''algorithm'', ''rollback_index'', ''image_size'']
   = [Some (PyStr ''SHA256_RSA2048''), Some PyNone, Some (PyStr ''8192'')]"
  by code_simp

text \<open>
  C4 (the code departs from it). With salt reuse on, rebuilding the regular \<^verbatim>\<open>boot\<close> whose
  Hash descriptor has no salt ends in \<open>TypeError\<close> (the log line slices \<^verbatim>\<open>None\<close>) instead
  of taking a fresh salt, and rebuilding the chained \<^verbatim>\<open>init_boot\<close> whose rollback index
  is absent ends in \<open>TypeError\<close> (the command line holds \<^verbatim>\<open>None\<close>); in both runs the footer
  has been erased by then. A Hash descriptor without a hash algorithm ends the regular
  plan in \<open>AttributeError\<close>.
\<close>

theorem absent_fields_raise:
  "rebuild_partition
     (example_system (\<lambda>img. report_lines
        [''Image size: 4096 bytes'', ''Algorithm: NONE'', ''    Hash descriptor:'',
         ''      Hash Algorithm: sha256'', ''      Partition Name: boot'',
         ''      Digest: 12ab'']) [])
     example_rebuilder ''boot'' ''boot.img'' None True
     \<lparr>world = [''boot.img''], commands = []\<rparr>
   = (Inl TypeError,
      \<lparr>world = [''boot.img''],
       commands = [[''python3'', ''tools/avbtool.py'', ''info_image'', ''--image'', ''boot.img''],
                   [''python3'', ''tools/avbtool.py'', ''erase_footer'', ''--image'',
                    ''boot.img'']]\<rparr>)
   \<and> rebuild_partition
       (example_system (\<lambda>img. report_lines
          [''Image size: 8192 bytes'', ''Algorithm: SHA256_RSA2048'']) [])
       example_rebuilder ''init_boot'' ''init_boot.img'' None True
       \<lparr>world = [''init_boot.img''], commands = []\<rparr>
     = (Inl TypeError,
        \<lparr>world = [''init_boot.img''],
         commands = [[''python3'', ''tools/avbtool.py'', ''info_image'', ''--image'',
                      ''init_boot.img''],
                     [''python3'', ''tools/avbtool.py'', ''erase_footer'', ''--image'',
                      ''init_boot.img'']]\<rparr>)
   \<and> hash_partition_cmd example_rebuilder ''boot'' ''boot.img'' 4096
       (example_info (PyStr ''NONE'') (PyStr ''0'')
          [example_hash_desc ''boot'' PyNone (PyStr ''1f2e'')])
       True ''5e''
     = Inl AttributeError"
  by code_simp

section \<open>The run\<close>

text \<open>Reading a report runs one \<^verbatim>\<open>info_image\<close> command and never raises.\<close>

lemma parse_image_info_result:
  "\<exists>info w. parse_image_info sys self image_path s
     = (Inr info,
        \<lparr>world = w,
         commands = commands s @ [[python_executable self, avbtool_path self, ''info_image'',
                                   ''--image'', image_path]]\<rparr>)"
  by (simp add: parse_image_info_def run_command_def info_image_cmd_def split: prod.splits)

lemma parse_image_info_commands:
  assumes "parse_image_info sys self image_path s = (r, s')"
  shows "(\<exists>info. r = Inr info)
       \<and> commands s' = commands s @ [[python_executable self, avbtool_path self,
                                       ''info_image'', ''--image'', image_path]]"
  using parse_image_info_result[of sys self image_path s] assms by auto

lemma classify_images_commands:
  "classify_images sys self images chained regular s = (r, s1) \<Longrightarrow>
   (\<exists>chained' regular'. r = Inr (chained', regular'))
   \<and> commands s1
       = commands s @ map (\<lambda>(partition_name, image_path).
                             [python_executable self, avbtool_path self, ''info_image'',
                              ''--image'', image_path]) images"
proof (induction images arbitrary: chained regular s)
  case Nil
  then show ?case by auto
next
  case (Cons entry images)
  obtain partition_name image_path where entry: "entry = (partition_name, image_path)"
    by (cases entry)
  obtain info s' where p: "parse_image_info sys self image_path s = (Inr info, s')"
    using parse_image_info_result[of sys self image_path s] by blast
  from parse_image_info_commands[OF p]
  have c: "commands s' = commands s @ [[python_executable self, avbtool_path self,
                                        ''info_image'', ''--image'', image_path]]" by simp
  show ?case
  proof (cases "is_chained info")
    case True
    with Cons.prems entry p
    have "classify_images sys self images (chained @ [(partition_name, image_path)]) regular s'
            = (r, s1)" by simp
    from Cons.IH[OF this] c entry show ?thesis by simp
  next
    case False
    with Cons.prems entry p
    have "classify_images sys self images chained (regular @ [(partition_name, image_path)]) s'
            = (r, s1)" by simp
    from Cons.IH[OF this] c entry show ?thesis by simp
  qed
qed

lemma verify_images_returns: "\<exists>s'. verify_images sys self images s = (Inr (), s')"
proof (induction images arbitrary: s)
  case Nil
  then show ?case by simp
next
  case (Cons entry images)
  obtain partition_name image_path where entry: "entry = (partition_name, image_path)"
    by (cases entry)
  obtain info s' where "parse_image_info sys self image_path s = (Inr info, s')"
    using parse_image_info_result[of sys self image_path s] by blast
  with Cons.IH[of s'] entry show ?case by simp
qed

lemma verify_result_returns: "\<exists>s'. verify_result sys self s = (Inr (), s')"
proof (cases "path_exists sys ''vbmeta.img'' (world s)")
  case True
  obtain info s1 where "parse_image_info sys self ''vbmeta.img'' s = (Inr info, s1)"
    using parse_image_info_result[of sys self "''vbmeta.img''" s] by blast
  with True verify_images_returns[of sys self _ s1] show ?thesis
    by (simp add: verify_result_def)
next
  case False
  with verify_images_returns[of sys self _ s] show ?thesis
    by (simp add: verify_result_def)
qed

lemma finish_run_success:
  assumes "0 < success_count"
  shows "\<exists>s'. finish_run sys self success_count s = (Inr True, s')"
proof -
  obtain s' where "verify_result sys self s = (Inr (), s')"
    using verify_result_returns by blast
  with assms show ?thesis by (simp add: finish_run_def)
qed

text \<open>
  C7. In default mode, when the classification of the selected images finds a regular
  partition and \<^verbatim>\<open>vbmeta.img\<close> does not exist, the run returns \<open>False\<close> (exit status 1) in
  the state the classification left: the only commands run are the \<^verbatim>\<open>info_image\<close> reads of
  the classification, one per image; no footer is erased or rebuilt.
\<close>

theorem missing_vbmeta_fails_before_any_rebuild:
  assumes "classify_images sys self (select_images sys partitions (world s)) [] [] s
             = (Inr (chained_partitions, regular_partitions), s1)"
    and "regular_partitions \<noteq> []"
    and "\<not> path_exists sys ''vbmeta.img'' (world s1)"
  shows "rebuild_all sys self partitions use_original_salt False s = (Inr False, s1)
       \<and> exit_status False = 1
       \<and> commands s1
           = commands s @ map (\<lambda>(partition_name, image_path).
                                 [python_executable self, avbtool_path self, ''info_image'',
                                  ''--image'', image_path])
                            (select_images sys partitions (world s))"
proof -
  from assms(1,2) have "select_images sys partitions (world s) \<noteq> []" by auto
  with assms have "rebuild_all sys self partitions use_original_salt False s = (Inr False, s1)"
    by (simp add: rebuild_all_def)
  moreover from classify_images_commands[OF assms(1)]
  have "commands s1
           = commands s @ map (\<lambda>(partition_name, image_path).
                                 [python_executable self, avbtool_path self, ''info_image'',
                                  ''--image'', image_path])
                            (select_images sys partitions (world s))" by simp
  ultimately show ?thesis by (simp add: exit_status_def)
qed

theorem missing_vbmeta_witness:
  "rebuild_all
     (example_system (\<lambda>img. report_lines [''Image size: 4096 bytes'', ''Algorithm: NONE''])
        [])
     example_rebuilder None True False \<lparr>world = [''boot.img''], commands = []\<rparr>
   = (Inr False,
      \<lparr>world = [''boot.img''],
       commands = [[''python3'', ''tools/avbtool.py'', ''info_image'', ''--image'',
                    ''boot.img'']]\<rparr>)"
proof -
  let ?sys = "example_system
                (\<lambda>img. report_lines [''Image size: 4096 bytes'', ''Algorithm: NONE'']) []"
  let ?s = "\<lparr>world = [''boot.img''], commands = []\<rparr> :: string list run_state"
  let ?s1 = "\<lparr>world = [''boot.img''],
              commands = [[''python3'', ''tools/avbtool.py'', ''info_image'', ''--image'',
                           ''boot.img'']]\<rparr> :: string list run_state"
  have c: "classify_images ?sys example_rebuilder (select_images ?sys None (world ?s)) [] [] ?s
             = (Inr ([], [(''boot'', ''boot.img'')]), ?s1)"
    by code_simp
  have r: "[(''boot'', ''boot.img'')] \<noteq> ([] :: (string \<times> string) list)" by simp
  have v: "\<not> path_exists ?sys ''vbmeta.img'' (world ?s1)" by code_simp
  from missing_vbmeta_fails_before_any_rebuild[OF c r v] show ?thesis by blast
qed

text \<open>
  Inside \<^verbatim>\<open>rebuild_vbmeta\<close> the key selector can end the process: when the report of
  \<^verbatim>\<open>vbmeta.img\<close> is read and no key is selected for its algorithm, the step does not return.
\<close>

lemma rebuild_vbmeta_key_failure:
  assumes "parse_image_info sys self ''vbmeta.img'' s = (Inr (Some vbmeta_info), s1)"
    and "get_key_for_algorithm self
           (dict_get_default (scalars vbmeta_info) ''algorithm'' (PyStr ''SHA256_RSA4096''))
         = Inl e"
  shows "rebuild_vbmeta sys self partition_images s = (Inl e, s1)"
  using assms by (simp add: rebuild_vbmeta_def)

lemma rebuild_regular_outcome:
  assumes "parse_image_info sys self ''vbmeta.img'' s2 = (Inr vbmeta_info, s3)"
    and "rebuild_each sys self regular_partitions vbmeta_info use_original_salt n1 s3
           = (Inr n2, s4)"
    and "regular_partitions \<noteq> []"
    and "rebuild_vbmeta sys self (py_dict regular_partitions) s4 = (outcome, s5)"
  shows "rebuild_regular sys self regular_partitions use_original_salt n1 s2
         = (case outcome of Inl e \<Rightarrow> (Inl e, s5) | Inr rebuilt \<Rightarrow> (Inr n2, s5))"
  using assms by (simp add: rebuild_regular_def split: sum.splits)

text \<open>
  C3, as amended. A run in default mode has regular partitions and \<^verbatim>\<open>vbmeta.img\<close>, both
  rebuild loops return, and at least one partition was rebuilt. If the umbrella step then
  returns, with \<open>True\<close> or with \<open>False\<close> (unreadable \<^verbatim>\<open>vbmeta.img\<close>, failed tool run, missing
  \<^verbatim>\<open>vbmeta_new.img\<close>), the run ends with \<open>True\<close>, exit status 0. If the step raises instead
  (the key selector's exit among them), the run ends there with that error.
\<close>

theorem umbrella_failure_warning_unless_raised:
  assumes "classify_images sys self (select_images sys partitions (world s)) [] [] s
             = (Inr (chained_partitions, regular_partitions), s1)"
    and "regular_partitions \<noteq> []"
    and "path_exists sys ''vbmeta.img'' (world s1)"
    and "rebuild_each sys self chained_partitions
           (Some \<lparr>scalars = Map.empty, descriptors = []\<rparr>) use_original_salt 0 s1
         = (Inr n1, s2)"
    and "parse_image_info sys self ''vbmeta.img'' s2 = (Inr vbmeta_info, s3)"
    and "rebuild_each sys self regular_partitions vbmeta_info use_original_salt n1 s3
           = (Inr n2, s4)"
    and "0 < n2"
    and "rebuild_vbmeta sys self (py_dict regular_partitions) s4 = (outcome, s5)"
  shows "case outcome of
           Inr rebuilt \<Rightarrow>
             (\<exists>s6. rebuild_all sys self partitions use_original_salt False s = (Inr True, s6))
             \<and> exit_status True = 0
         | Inl e \<Rightarrow> rebuild_all sys self partitions use_original_salt False s = (Inl e, s5)"
proof -
  from assms(1,2) have images: "select_images sys partitions (world s) \<noteq> []" by auto
  note regular = rebuild_regular_outcome[OF assms(5) assms(6) assms(2) assms(8)]
  from images assms(1-4)
  have run: "rebuild_all sys self partitions use_original_salt False s
             = (case rebuild_regular sys self regular_partitions use_original_salt n1 s2 of
                  (Inl e, s3) \<Rightarrow> (Inl e, s3)
                | (Inr success_count', s3) \<Rightarrow> finish_run sys self success_count' s3)"
    by (simp add: rebuild_all_def)
  show ?thesis
  proof (cases outcome)
    case (Inl e)
    with run regular show ?thesis by simp
  next
    case (Inr rebuilt)
    with run regular
    have "rebuild_all sys self partitions use_original_salt False s = finish_run sys self n2 s5"
      by simp
    with finish_run_success[OF assms(7), of sys self s5] Inr show ?thesis
      by (simp add: exit_status_def)
  qed
qed

theorem umbrella_failure_warning_witness:
  "rebuild_vbmeta (example_system (example_reports ''SHA256_RSA4096'') [''make_vbmeta_image''])
     example_rebuilder (py_dict [(''boot'', ''boot.img'')])
     \<lparr>world = [''boot.img'', ''vbmeta.img''],
      commands =
        [[''python3'', ''tools/avbtool.py'', ''info_image'', ''--image'', ''boot.img''],
         [''python3'', ''tools/avbtool.py'', ''info_image'', ''--image'', ''vbmeta.img''],
         [''python3'', ''tools/avbtool.py'', ''info_image'', ''--image'', ''boot.img''],
         [''python3'', ''tools/avbtool.py'', ''erase_footer'', ''--image'', ''boot.img''],
         [''python3'', ''tools/avbtool.py'', ''add_hash_footer'', ''--image'', ''boot.img'',
          ''--partition_name'', ''boot'', ''--partition_size'', ''4096'',
          ''--algorithm'', ''NONE'', ''--salt'', replicate 64 (CHR ''a'')]]\<rparr>
   = (Inr False,
      \<lparr>world = [''boot.img'', ''vbmeta.img''],
       commands =
        [[''python3'', ''tools/avbtool.py'', ''info_image'', ''--image'', ''boot.img''],
         [''python3'', ''tools/avbtool.py'', ''info_image'', ''--image'', ''vbmeta.img''],
         [''python3'', ''tools/avbtool.py'', ''info_image'', ''--image'', ''boot.img''],
         [''python3'', ''tools/avbtool.py'', ''erase_footer'', ''--image'', ''boot.img''],
         [''python3'', ''tools/avbtool.py'', ''add_hash_footer'', ''--image'', ''boot.img'',
          ''--partition_name'', ''boot'', ''--partition_size'', ''4096'',
          ''--algorithm'', ''NONE'', ''--salt'', replicate 64 (CHR ''a'')],
         [''python3'', ''tools/avbtool.py'', ''info_image'', ''--image'', ''vbmeta.img''],
         [''python3'', ''tools/avbtool.py'', ''make_vbmeta_image'',
          ''--output'', ''vbmeta_new.img'', ''--algorithm'', ''SHA256_RSA4096'',
          ''--key'', ''/w/tools/pem/testkey_rsa4096.pem'', ''--rollback_index'', ''0'',
          ''--flags'', ''0'', ''--rollback_index_location'', ''0'',
          ''--padding_size'', ''4096'', ''--include_descriptors_from_image'', ''vbmeta.img'',
          ''--include_descriptors_from_image'', ''boot.img'']]\<rparr>)
   \<and> (\<exists>s6. rebuild_all
              (example_system (example_reports ''SHA256_RSA4096'') [''make_vbmeta_image''])
              example_rebuilder None True False
              \<lparr>world = [''boot.img'', ''vbmeta.img''], commands = []\<rparr>
            = (Inr True, s6))"
proof -
  let ?sys = "example_system (example_reports ''SHA256_RSA4096'') [''make_vbmeta_image'']"
  let ?s = "\<lparr>world = [''boot.img'', ''vbmeta.img''], commands = []\<rparr> :: string list run_state"
  let ?s1 = "\<lparr>world = [''boot.img'', ''vbmeta.img''],
              commands = [[''python3'', ''tools/avbtool.py'', ''info_image'', ''--image'',
                           ''boot.img'']]\<rparr> :: string list run_state"
  let ?s4 = "\<lparr>world = [''boot.img'', ''vbmeta.img''],
      commands =
        [[''python3'', ''tools/avbtool.py'', ''info_image'', ''--image'', ''boot.img''],
         [''python3'', ''tools/avbtool.py'', ''info_image'', ''--image'', ''vbmeta.img''],
         [''python3'', ''tools/avbtool.py'', ''info_image'', ''--image'', ''boot.img''],
         [''python3'', ''tools/avbtool.py'', ''erase_footer'', ''--image'', ''boot.img''],
         [''python3'', ''tools/avbtool.py'', ''add_hash_footer'', ''--image'', ''boot.img'',
          ''--partition_name'', ''boot'', ''--partition_size'', ''4096'',
          ''--algorithm'', ''NONE'', ''--salt'', replicate 64 (CHR ''a'')]]\<rparr>
     :: string list run_state"
  let ?s5 = "\<lparr>world = [''boot.img'', ''vbmeta.img''],
       commands =
        [[''python3'', ''tools/avbtool.py'', ''info_image'', ''--image'', ''boot.img''],
         [''python3'', ''tools/avbtool.py'', ''info_image'', ''--image'', ''vbmeta.img''],
         [''python3'', ''tools/avbtool.py'', ''info_image'', ''--image'', ''boot.img''],
         [''python3'', ''tools/avbtool.py'', ''erase_footer'', ''--image'', ''boot.img''],
         [''python3'', ''tools/avbtool.py'', ''add_hash_footer'', ''--image'', ''boot.img'',
          ''--partition_name'', ''boot'', ''--partition_size'', ''4096'',
          ''--algorithm'', ''NONE'', ''--salt'', replicate 64 (CHR ''a'')],
         [''python3'', ''tools/avbtool.py'', ''info_image'', ''--image'', ''vbmeta.img''],
         [''python3'', ''tools/avbtool.py'', ''make_vbmeta_image'',
          ''--output'', ''vbmeta_new.img'', ''--algorithm'', ''SHA256_RSA4096'',
          ''--key'', ''/w/tools/pem/testkey_rsa4096.pem'', ''--rollback_index'', ''0'',
          ''--flags'', ''0'', ''--rollback_index_location'', ''0'',
          ''--padding_size'', ''4096'', ''--include_descriptors_from_image'', ''vbmeta.img'',
          ''--include_descriptors_from_image'', ''boot.img'']]\<rparr>
     :: string list run_state"
  define vbmeta_info where
    "vbmeta_info = projr (fst (parse_image_info ?sys example_rebuilder ''vbmeta.img'' ?s1))"
  define s3 where "s3 = snd (parse_image_info ?sys example_rebuilder ''vbmeta.img'' ?s1)"
  have h1: "classify_images ?sys example_rebuilder (select_images ?sys None (world ?s)) [] [] ?s
              = (Inr ([], [(''boot'', ''boot.img'')]), ?s1)"
    by code_simp
  have h2: "[(''boot'', ''boot.img'')] \<noteq> ([] :: (string \<times> string) list)" by simp
  have h3: "path_exists ?sys ''vbmeta.img'' (world ?s1)" by code_simp
  have h4: "rebuild_each ?sys example_rebuilder []
              (Some \<lparr>scalars = Map.empty, descriptors = []\<rparr>) True 0 ?s1 = (Inr 0, ?s1)"
    by simp
  have h5: "parse_image_info ?sys example_rebuilder ''vbmeta.img'' ?s1 = (Inr vbmeta_info, s3)"
    using parse_image_info_result[of ?sys example_rebuilder "''vbmeta.img''" ?s1]
    unfolding vbmeta_info_def s3_def by auto
  have h6: "rebuild_each ?sys example_rebuilder [(''boot'', ''boot.img'')] vbmeta_info True 0 s3
              = (Inr 1, ?s4)"
    unfolding vbmeta_info_def s3_def by code_simp
  have h7: "(0::nat) < 1" by simp
  have h8: "rebuild_vbmeta ?sys example_rebuilder (py_dict [(''boot'', ''boot.img'')]) ?s4
              = (Inr False, ?s5)"
    by code_simp
  from umbrella_failure_warning_unless_raised[OF h1 h2 h3 h4 h5 h6 h7 h8]
  have "\<exists>s6. rebuild_all ?sys example_rebuilder None True False ?s = (Inr True, s6)"
    by simp
  with h8 show ?thesis by blast
qed

text \<open>
  C3 as stated fails. \<^verbatim>\<open>boot.img\<close> is a regular partition and every tool command succeeds;
  the report of \<^verbatim>\<open>vbmeta.img\<close> gives the algorithm \<^verbatim>\<open>NONE\<close>. The partition is rebuilt (the
  success count is 1), then the key selector inside \<^verbatim>\<open>rebuild_vbmeta\<close> ends the process with
  exit status 1: no warning, no overall success.
\<close>

theorem umbrella_key_selection_exit_counterexample:
  "rebuild_each (example_system (example_reports ''NONE'') []) example_rebuilder
     [(''boot'', ''boot.img'')]
     (projr (fst (parse_image_info (example_system (example_reports ''NONE'') [])
                    example_rebuilder ''vbmeta.img''
                    \<lparr>world = [''boot.img'', ''vbmeta.img''],
                     commands = [[''python3'', ''tools/avbtool.py'', ''info_image'',
                                  ''--image'', ''boot.img'']]\<rparr>)))
     True 0
     \<lparr>world = [''boot.img'', ''vbmeta.img''],
      commands =
        [[''python3'', ''tools/avbtool.py'', ''info_image'', ''--image'', ''boot.img''],
         [''python3'', ''tools/avbtool.py'', ''info_image'', ''--image'', ''vbmeta.img'']]\<rparr>
   = (Inr 1,
      \<lparr>world = [''boot.img'', ''vbmeta.img''],
       commands =
        [[''python3'', ''tools/avbtool.py'', ''info_image'', ''--image'', ''boot.img''],
         [''python3'', ''tools/avbtool.py'', ''info_image'', ''--image'', ''vbmeta.img''],
         [''python3'', ''tools/avbtool.py'', ''info_image'', ''--image'', ''boot.img''],
         [''python3'', ''tools/avbtool.py'', ''erase_footer'', ''--image'', ''boot.img''],
         [''python3'', ''tools/avbtool.py'', ''add_hash_footer'', ''--image'', ''boot.img'',
          ''--partition_name'', ''boot'', ''--partition_size'', ''4096'',
          ''--algorithm'', ''NONE'', ''--salt'', replicate 64 (CHR ''a'')]]\<rparr>)
   \<and> rebuild_all (example_system (example_reports ''NONE'') []) example_rebuilder None True
       False \<lparr>world = [''boot.img'', ''vbmeta.img''], commands = []\<rparr>
     = (Inl (SystemExit 1),
        \<lparr>world = [''boot.img'', ''vbmeta.img''],
         commands =
          [[''python3'', ''tools/avbtool.py'', ''info_image'', ''--image'', ''boot.img''],
           [''python3'', ''tools/avbtool.py'', ''info_image'', ''--image'', ''vbmeta.img''],
           [''python3'', ''tools/avbtool.py'', ''info_image'', ''--image'', ''boot.img''],
           [''python3'', ''tools/avbtool.py'', ''erase_footer'', ''--image'', ''boot.img''],
           [''python3'', ''tools/avbtool.py'', ''add_hash_footer'', ''--image'', ''boot.img'',
            ''--partition_name'', ''boot'', ''--partition_size'', ''4096'',
            ''--algorithm'', ''NONE'', ''--salt'', replicate 64 (CHR ''a'')],
           [''python3'', ''tools/avbtool.py'', ''info_image'', ''--image'',
            ''vbmeta.img'']]\<rparr>)"
  by code_simp

section \<open>Classification in the run\<close>

lemma classify_images_partition:
  "fst (classify_images sys self images chained regular s)
   = Inr (chained
            @ map fst (filter (\<lambda>(entry, current_info). spec_chained current_info)
                         (zip images (reports_read sys self images s))),
          regular
            @ map fst (filter (\<lambda>(entry, current_info). \<not> spec_chained current_info)
                         (zip images (reports_read sys self images s))))"
proof (induction images arbitrary: chained regular s)
  case Nil
  then show ?case by simp
next
  case (Cons entry images)
  obtain partition_name image_path where entry: "entry = (partition_name, image_path)"
    by (cases entry)
  obtain info s' where p: "parse_image_info sys self image_path s = (Inr info, s')"
    using parse_image_info_result[of sys self image_path s] by blast
  show ?case
  proof (cases "spec_chained info")
    case True
    with entry p Cons.IH[of "chained @ [(partition_name, image_path)]" regular s']
    show ?thesis by (simp add: is_chained_spec)
  next
    case False
    with entry p Cons.IH[of chained "regular @ [(partition_name, image_path)]" s']
    show ?thesis by (simp add: is_chained_spec)
  qed
qed

text \<open>
  C5. The test the code makes on a parsed image holds exactly when the algorithm field is
  present, not empty and not \<^verbatim>\<open>NONE\<close>, which is the rule of the specification. The
  classification loop of \<^verbatim>\<open>rebuild_all\<close> puts into the chained list exactly the images whose
  report, as read in the loop, satisfies the rule, and into the regular list all the others
  (an unreadable report among them), both in the order of the images. In
  \<^verbatim>\<open>rebuild_partition\<close>, once the report is read, the size known and the footer erased, the
  chained plan runs when the report satisfies the rule and the regular plan otherwise.
\<close>

theorem classification_rule:
  "(is_chained (Some info)
      = (\<exists>a. scalars info ''algorithm'' = Some (PyStr a) \<and> a \<noteq> [] \<and> a \<noteq> ''NONE''))
   \<and> is_chained parsed = spec_chained parsed
   \<and> fst (classify_images sys self images [] [] s)
       = Inr (map fst (filter (\<lambda>(entry, current_info). spec_chained current_info)
                         (zip images (reports_read sys self images s))),
              map fst (filter (\<lambda>(entry, current_info). \<not> spec_chained current_info)
                         (zip images (reports_read sys self images s))))
   \<and> (\<forall>current_info s1 partition_size erased s2.
         parse_image_info sys self image_path s = (Inr (Some current_info), s1)
         \<and> truthy (dict_get (scalars current_info) ''image_size'')
         \<and> py_int (format_val (dict_get (scalars current_info) ''image_size''))
             = Inr partition_size
         \<and> run_command sys (erase_footer_cmd self image_path) s1 = (Inr erased, s2)
         \<longrightarrow> rebuild_partition sys self partition_name image_path vbmeta_info
               use_original_salt s
             = (if spec_chained (Some current_info)
                then rebuild_chained_partition sys self partition_name image_path
                       partition_size
                       (dict_get (scalars current_info) ''algorithm'')
                       (dict_get_default (scalars current_info) ''rollback_index''
                          (PyStr ''0''))
                       current_info use_original_salt s2
                else rebuild_hash_partition sys self partition_name image_path
                       partition_size vbmeta_info current_info use_original_salt s2))"
proof (intro conjI allI impI)
  show "is_chained (Some info)
      = (\<exists>a. scalars info ''algorithm'' = Some (PyStr a) \<and> a \<noteq> [] \<and> a \<noteq> ''NONE'')"
    by (rule is_chained_iff)
next
  show "is_chained parsed = spec_chained parsed" by (rule is_chained_spec)
next
  show "fst (classify_images sys self images [] [] s)
       = Inr (map fst (filter (\<lambda>(entry, current_info). spec_chained current_info)
                         (zip images (reports_read sys self images s))),
              map fst (filter (\<lambda>(entry, current_info). \<not> spec_chained current_info)
                         (zip images (reports_read sys self images s))))"
    using classify_images_partition[of sys self images "[]" "[]" s] by simp
next
  fix current_info s1 partition_size erased s2
  assume "parse_image_info sys self image_path s = (Inr (Some current_info), s1)
         \<and> truthy (dict_get (scalars current_info) ''image_size'')
         \<and> py_int (format_val (dict_get (scalars current_info) ''image_size''))
             = Inr partition_size
         \<and> run_command sys (erase_footer_cmd self image_path) s1 = (Inr erased, s2)"
  then show "rebuild_partition sys self partition_name image_path vbmeta_info
               use_original_salt s
             = (if spec_chained (Some current_info)
                then rebuild_chained_partition sys self partition_name image_path
                       partition_size
                       (dict_get (scalars current_info) ''algorithm'')
                       (dict_get_default (scalars current_info) ''rollback_index''
                          (PyStr ''0''))
                       current_info use_original_salt s2
                else rebuild_hash_partition sys self partition_name image_path
                       partition_size vbmeta_info current_info use_original_salt s2)"
    by (simp add: rebuild_partition_def is_chained_spec)
qed

theorem classification_rule_witness:
  "fst (classify_images (example_system example_mixed_reports []) example_rebuilder
          [(''boot'', ''boot.img''), (''init_boot'', ''init_boot.img'')] [] []
          \<lparr>world = [''boot.img'', ''init_boot.img''], commands = []\<rparr>)
   = Inr ([(''init_boot'', ''init_boot.img'')], [(''boot'', ''boot.img'')])
   \<and> rebuild_partition (example_system example_mixed_reports []) example_rebuilder
       ''init_boot'' ''init_boot.img'' None True
       \<lparr>world = [''boot.img'', ''init_boot.img''], commands = []\<rparr>
     = (Inr True,
        \<lparr>world = [''boot.img'', ''init_boot.img''],
         commands =
           [[''python3'', ''tools/avbtool.py'', ''info_image'', ''--image'',
             ''init_boot.img''],
            [''python3'', ''tools/avbtool.py'', ''erase_footer'', ''--image'',
             ''init_boot.img''],
            [''python3'', ''tools/avbtool.py'', ''add_hash_footer'', ''--image'',
             ''init_boot.img'', ''--partition_name'', ''init_boot'',
             ''--partition_size'', ''8192'', ''--algorithm'', ''SHA256_RSA2048'',
             ''--key'', ''/w/tools/pem/testkey_rsa2048.pem'',
             ''--rollback_index'', ''0'']]\<rparr>)"
proof -
  let ?sys = "example_system example_mixed_reports []"
  let ?images = "[(''boot'', ''boot.img''), (''init_boot'', ''init_boot.img'')]"
  let ?s = "\<lparr>world = [''boot.img'', ''init_boot.img''], commands = []\<rparr>
            :: string list run_state"
  let ?s1 = "\<lparr>world = [''boot.img'', ''init_boot.img''],
              commands = [[''python3'', ''tools/avbtool.py'', ''info_image'', ''--image'',
                           ''init_boot.img'']]\<rparr> :: string list run_state"
  let ?s2 = "\<lparr>world = [''boot.img'', ''init_boot.img''],
              commands = [[''python3'', ''tools/avbtool.py'', ''info_image'', ''--image'',
                           ''init_boot.img''],
                          [''python3'', ''tools/avbtool.py'', ''erase_footer'', ''--image'',
                           ''init_boot.img'']]\<rparr> :: string list run_state"
  let ?s3 = "\<lparr>world = [''boot.img'', ''init_boot.img''],
         commands =
           [[''python3'', ''tools/avbtool.py'', ''info_image'', ''--image'',
             ''init_boot.img''],
            [''python3'', ''tools/avbtool.py'', ''erase_footer'', ''--image'',
             ''init_boot.img''],
            [''python3'', ''tools/avbtool.py'', ''add_hash_footer'', ''--image'',
             ''init_boot.img'', ''--partition_name'', ''init_boot'',
             ''--partition_size'', ''8192'', ''--algorithm'', ''SHA256_RSA2048'',
             ''--key'', ''/w/tools/pem/testkey_rsa2048.pem'',
             ''--rollback_index'', ''0'']]\<rparr> :: string list run_state"
  let ?read = "parse_image_info ?sys example_rebuilder ''init_boot.img'' ?s"
  define current_info where "current_info = the (projr (fst ?read))"
  have a: "case fst ?read of Inr (Some x) \<Rightarrow> True | _ \<Rightarrow> False" by code_simp
  have b: "snd ?read = ?s1" by code_simp
  have h1: "?read = (Inr (Some current_info), ?s1)"
    using a b unfolding current_info_def
    by (cases ?read) (auto split: sum.splits option.splits)
  have h2: "truthy (dict_get (scalars current_info) ''image_size'')"
    unfolding current_info_def by code_simp
  have h3: "py_int (format_val (dict_get (scalars current_info) ''image_size'')) = Inr 8192"
    unfolding current_info_def by code_simp
  have h4: "run_command ?sys (erase_footer_cmd example_rebuilder ''init_boot.img'') ?s1
              = (Inr (Some []), ?s2)"
    by code_simp
  have chained: "spec_chained (Some current_info)"
    unfolding current_info_def by code_simp
  have plan: "rebuild_chained_partition ?sys example_rebuilder ''init_boot'' ''init_boot.img''
                8192 (dict_get (scalars current_info) ''algorithm'')
                (dict_get_default (scalars current_info) ''rollback_index'' (PyStr ''0''))
                current_info True ?s2
              = (Inr True, ?s3)"
    unfolding current_info_def by code_simp
  have lists: "Inr (map fst (filter (\<lambda>(entry, current_info). spec_chained current_info)
                         (zip ?images (reports_read ?sys example_rebuilder ?images ?s))),
              map fst (filter (\<lambda>(entry, current_info). \<not> spec_chained current_info)
                         (zip ?images (reports_read ?sys example_rebuilder ?images ?s))))
               = (Inr ([(''init_boot'', ''init_boot.img'')], [(''boot'', ''boot.img'')])
                  :: error + (string \<times> string) list \<times> (string \<times> string) list)"
    by code_simp
  note rule = classification_rule[where sys = ?sys and self = example_rebuilder
      and images = ?images and s = ?s and image_path = "''init_boot.img''"
      and partition_name = "''init_boot''" and vbmeta_info = None
      and use_original_salt = True]
  from rule have "fst (classify_images ?sys example_rebuilder ?images [] [] ?s)
       = Inr (map fst (filter (\<lambda>(entry, current_info). spec_chained current_info)
                         (zip ?images (reports_read ?sys example_rebuilder ?images ?s))),
              map fst (filter (\<lambda>(entry, current_info). \<not> spec_chained current_info)
                         (zip ?images (reports_read ?sys example_rebuilder ?images ?s))))"
    by blast
  with lists have loop: "fst (classify_images ?sys example_rebuilder ?images [] [] ?s)
       = Inr ([(''init_boot'', ''init_boot.img'')], [(''boot'', ''boot.img'')])"
    by simp
  from rule h1 h2 h3 h4
  have "rebuild_partition ?sys example_rebuilder ''init_boot'' ''init_boot.img'' None True ?s
        = (if spec_chained (Some current_info)
           then rebuild_chained_partition ?sys example_rebuilder ''init_boot'' ''init_boot.img''
                  8192 (dict_get (scalars current_info) ''algorithm'')
                  (dict_get_default (scalars current_info) ''rollback_index'' (PyStr ''0''))
                  current_info True ?s2
           else rebuild_hash_partition ?sys example_rebuilder ''init_boot'' ''init_boot.img''
                  8192 None current_info True ?s2)"
    by blast
  with chained plan
  have "rebuild_partition ?sys example_rebuilder ''init_boot'' ''init_boot.img'' None True ?s
        = (Inr True, ?s3)" by simp
  with loop show ?thesis by blast
qed

end
